theory Spec2Isabelle
  imports Complex_Main "HOL-Library.AList"
begin

section \<open>Data model of \<open>document_intelligence_agent.py\<close>\<close>

text \<open>
  The class \<open>DocumentIntelligenceAgent\<close> wires third-party services together: a PDF
  loader, a text splitter, an embedding model, a Chroma vector store and a chat model.
  None of these services is part of the repository. They are modelled as the
  \<^emph>\<open>environment\<close>: a record of oracles that say, for each external call the source
  makes, what the call answers (a value, or the exception it raises). Every external
  call is appended, with its arguments, to a trace kept in the world state, so that what
  the agent asked of the outside and in which order can be stated. Output written with
  \<open>print\<close> is not modelled.
\<close>

subsection \<open>Exceptions\<close>

text \<open>
  The source raises \<open>FileNotFoundError\<close>, \<open>ValueError\<close> and \<open>RuntimeError\<close> itself;
  \<open>AttributeError\<close> is what Python raises for a method call on \<open>None\<close>.
  \<open>ServiceError\<close> stands for any other instance of \<open>Exception\<close> raised inside a
  third-party call. Every constructor carries the message, which is what \<open>str(e)\<close>
  and the f-string \<open>{e}\<close> print. Interrupts that are not instances of \<open>Exception\<close>
  (\<open>KeyboardInterrupt\<close>, \<open>SystemExit\<close>) are outside the model.
\<close>

datatype error =
    FileNotFoundError string
  | ValueError string
  | RuntimeError string
  | AttributeError string
  | ServiceError string

fun str :: "error \<Rightarrow> string" where
  "str (FileNotFoundError m) = m"
| "str (ValueError m) = m"
| "str (RuntimeError m) = m"
| "str (AttributeError m) = m"
| "str (ServiceError m) = m"

subsection \<open>Values, documents and the handles of external objects\<close>

datatype pyval = PyInt int | PyFloat real

text \<open>A Python \<open>dict\<close> with string keys, in insertion order.\<close>

type_synonym pydict = "(string \<times> pyval) list"

record document =
  page_content :: string
  metadata :: "(string \<times> string) list"

text \<open>
  An external object is represented by the constructor call that made it, with the
  arguments the source passes. The source passes \<open>self.embeddings\<close>, \<open>self.retriever\<close>
  and \<open>self.llm\<close> as they are, so these arguments are options.
\<close>

datatype embeddings = HuggingFaceEmbeddings string

datatype vector_store = Chroma string "embeddings option"

datatype retriever = VectorStoreRetriever vector_store string int

datatype llm = ChatOpenAI string int string

datatype rag_chain = RagChain "retriever option" "llm option"

subsection \<open>External calls and the environment\<close>

datatype call =
    PathExists string
  | GlobPdf string
  | PdfLoad string
  | SplitDocuments int int "document list"
  | EmbeddingsInit string
  | ChromaOpen string "embeddings option"
  | ChromaFromDocuments "document list" "embeddings option" string
  | AsRetriever vector_store int
  | Getenv string
  | ChatOpenAIInit string
  | ChainBuild "retriever option" "llm option"
  | ChainInvoke rag_chain string
  | ChromaLen vector_store
  | SimilaritySearch vector_store string int

text \<open>
  The oracles, one per external call of the source:
  \<^item> \<open>path_exists\<close>: \<open>Path.exists()\<close> and \<open>os.path.exists\<close>;
  \<^item> \<open>glob_pdf\<close>: \<open>list(data_directory.glob("*.pdf"))\<close>;
  \<^item> \<open>pdf_load\<close>: \<open>PyPDFLoader(str(pdf_file)).load()\<close>, one document per page;
  \<^item> \<open>split_documents\<close>: \<open>RecursiveCharacterTextSplitter(chunk_size, chunk_overlap,
    len, ["\n\n", "\n", " ", ""]).split_documents(documents)\<close>;
  \<^item> \<open>embeddings_init\<close>: \<open>HuggingFaceEmbeddings(model_name, {'device': 'cpu'})\<close>;
  \<^item> \<open>chroma_open\<close>: \<open>Chroma(persist_directory, embedding_function)\<close>;
  \<^item> \<open>chroma_from_documents\<close>: \<open>Chroma.from_documents(documents, embedding,
    persist_directory)\<close>, the call that embeds and stores the chunks;
  \<^item> \<open>as_retriever\<close>: \<open>vector_store.as_retriever("similarity", {"k": k})\<close>;
  \<^item> \<open>getenv\<close>: \<open>os.getenv\<close>;
  \<^item> \<open>chat_openai_init\<close>: \<open>ChatOpenAI("gpt-3.5-turbo", 0, api_key)\<close>;
  \<^item> \<open>chain_build\<close>: the composition of retriever, prompt, model and parser;
  \<^item> \<open>chain_invoke\<close>: \<open>rag_chain.invoke(question)\<close>;
  \<^item> \<open>chroma_len\<close>: \<open>len(vector_store)\<close>, the number of documents in the collection of
    the store, which is what decides the truth value of a \<open>Chroma\<close> object;
  \<^item> \<open>similarity_search\<close>: \<open>vector_store.similarity_search(query, k=k)\<close>;
  \<^item> \<open>clock\<close>: the successive readings of \<open>time.time()\<close>, Python floats taken as
    reals.
  A constructor oracle answers \<open>None\<close> when the constructor returns and \<open>Some err\<close>
  when it raises \<open>err\<close>.
\<close>

record env =
  path_exists :: "string \<Rightarrow> bool"
  glob_pdf :: "string \<Rightarrow> string list"
  pdf_load :: "string \<Rightarrow> error + document list"
  split_documents :: "int \<Rightarrow> int \<Rightarrow> document list \<Rightarrow> error + document list"
  embeddings_init :: "string \<Rightarrow> error option"
  chroma_open :: "string \<Rightarrow> embeddings option \<Rightarrow> error option"
  chroma_from_documents :: "document list \<Rightarrow> embeddings option \<Rightarrow> string \<Rightarrow> error option"
  as_retriever :: "vector_store \<Rightarrow> int \<Rightarrow> error option"
  getenv :: "string \<Rightarrow> string option"
  chat_openai_init :: "string \<Rightarrow> error option"
  chain_build :: "retriever option \<Rightarrow> llm option \<Rightarrow> error option"
  chain_invoke :: "rag_chain \<Rightarrow> string \<Rightarrow> error + string"
  chroma_len :: "vector_store \<Rightarrow> error + nat"
  similarity_search :: "vector_store \<Rightarrow> string \<Rightarrow> int \<Rightarrow> error + document list"
  clock :: "nat \<Rightarrow> real"

subsection \<open>The world and the agent\<close>

text \<open>
  \<open>heap\<close> holds the \<open>dict\<close> objects, addressed by their index: the agent refers to its
  \<open>stats\<close> dictionary by address, so that a copy and the original are different
  objects. \<open>calls\<close> is the trace of external calls, oldest first. \<open>ticks\<close> counts the
  readings of the clock.
\<close>

record world =
  heap :: "pydict list"
  calls :: "call list"
  ticks :: nat

record agent =
  data_directory :: string
  vector_store_path :: string
  embedding_model :: string
  chunk_size :: int
  chunk_overlap :: int
  embeddings :: "embeddings option"
  vector_store :: "vector_store option"
  retriever :: "retriever option"
  llm :: "llm option"
  rag_chain :: "rag_chain option"
  stats :: nat

text \<open>
  A method returns what it returns or the exception it raises, together with the agent
  and the world as it leaves them: assignments made before an exception stay.
\<close>

type_synonym 'a res = "(error + 'a) \<times> agent \<times> world"

definition record_call :: "call \<Rightarrow> world \<Rightarrow> world" where
  "record_call c w = w\<lparr>calls := calls w @ [c]\<rparr>"

definition time_time :: "env \<Rightarrow> world \<Rightarrow> real \<times> world" where
  "time_time e w = (clock e (ticks w), w\<lparr>ticks := Suc (ticks w)\<rparr>)"

text \<open>
  \<open>d[k] = v\<close> on the dictionary at address \<open>r\<close>, and \<open>self.stats[k] = v\<close>: an update
  in place of the dictionary the agent refers to. \<open>self.stats[k]\<close> reads it.
\<close>

definition heap_setitem :: "nat \<Rightarrow> string \<Rightarrow> pyval \<Rightarrow> pydict list \<Rightarrow> pydict list" where
  "heap_setitem r k v h = h[r := AList.update k v (h ! r)]"

definition stats_setitem :: "agent \<Rightarrow> string \<Rightarrow> pyval \<Rightarrow> world \<Rightarrow> world" where
  "stats_setitem a k v w = w\<lparr>heap := heap_setitem (stats a) k v (heap w)\<rparr>"

definition stats_getitem :: "agent \<Rightarrow> string \<Rightarrow> world \<Rightarrow> pyval option" where
  "stats_getitem a k w = map_of (heap w ! stats a) k"

text \<open>The calls a run has added to the trace of the world it started in.\<close>

definition new_calls :: "world \<Rightarrow> world \<Rightarrow> call list" where
  "new_calls w w' = drop (length (calls w)) (calls w')"

section \<open>The methods of \<open>DocumentIntelligenceAgent\<close>\<close>

text \<open>
  The tests \<open>not self.embeddings\<close>, \<open>not self.vector_store\<close> and \<open>not self.rag_chain\<close>
  are truth tests. \<open>None\<close> is false. An embedding model and a chain are objects without
  length, hence true. A \<open>Chroma\<close> store has a length, the number of documents in its
  collection, and is true exactly when that number is not zero: an assigned store
  without documents is treated by \<open>search_documents\<close> like a missing one.
  The data directory is kept as the string of its path.
\<close>

text \<open>\<open>__init__\<close>: the configuration, five unset components and a new \<open>stats\<close> dictionary.\<close>

definition init_agent :: "string \<Rightarrow> string \<Rightarrow> string \<Rightarrow> int \<Rightarrow> int \<Rightarrow> world \<Rightarrow> agent \<times> world" where
  "init_agent dir path model csize coverlap w =
     (\<lparr>data_directory = dir, vector_store_path = path, embedding_model = model,
       chunk_size = csize, chunk_overlap = coverlap,
       embeddings = None, vector_store = None, retriever = None, llm = None,
       rag_chain = None, stats = length (heap w)\<rparr>,
      w\<lparr>heap := heap w @
         [[(''documents_loaded'', PyInt 0), (''chunks_created'', PyInt 0),
           (''processing_time'', PyInt 0)]]\<rparr>)"

definition setup_embeddings :: "env \<Rightarrow> agent \<Rightarrow> world \<Rightarrow> unit res" where
  "setup_embeddings e a w =
     (let w1 = record_call (EmbeddingsInit (embedding_model a)) w in
      case embeddings_init e (embedding_model a) of
        Some err \<Rightarrow> (Inl err, a, w1)
      | None \<Rightarrow>
          (Inr (), a\<lparr>embeddings := Some (HuggingFaceEmbeddings (embedding_model a))\<rparr>, w1))"

text \<open>The loop \<open>for pdf_file in pdf_files\<close> of \<open>load_documents\<close>.\<close>

fun load_files :: "env \<Rightarrow> string list \<Rightarrow> document list \<Rightarrow> world \<Rightarrow> (error + document list) \<times> world" where
  "load_files e [] documents w = (Inr documents, w)"
| "load_files e (pdf_file # pdf_files) documents w =
     (let w1 = record_call (PdfLoad pdf_file) w in
      case pdf_load e pdf_file of
        Inl err \<Rightarrow> (Inl err, w1)
      | Inr docs \<Rightarrow> load_files e pdf_files (documents @ docs) w1)"

definition load_documents :: "env \<Rightarrow> agent \<Rightarrow> world \<Rightarrow> document list res" where
  "load_documents e a w =
     (let w1 = record_call (PathExists (data_directory a)) w in
      if \<not> path_exists e (data_directory a) then
        (Inl (FileNotFoundError (''Data directory '' @ data_directory a @ '' not found'')), a, w1)
      else
        let w2 = record_call (GlobPdf (data_directory a)) w1;
            pdf_files = glob_pdf e (data_directory a) in
        if pdf_files = [] then
          (Inl (FileNotFoundError (''No PDF files found in '' @ data_directory a)), a, w2)
        else
          case load_files e pdf_files [] w2 of
            (Inl err, w3) \<Rightarrow> (Inl err, a, w3)
          | (Inr documents, w3) \<Rightarrow>
              (Inr documents, a,
               stats_setitem a ''documents_loaded'' (PyInt (int (length documents))) w3))"

definition create_chunks :: "env \<Rightarrow> agent \<Rightarrow> document list \<Rightarrow> world \<Rightarrow> document list res" where
  "create_chunks e a documents w =
     (let w1 = record_call (SplitDocuments (chunk_size a) (chunk_overlap a) documents) w in
      case split_documents e (chunk_size a) (chunk_overlap a) documents of
        Inl err \<Rightarrow> (Inl err, a, w1)
      | Inr chunks \<Rightarrow>
          (Inr chunks, a, stats_setitem a ''chunks_created'' (PyInt (int (length chunks))) w1))"

text \<open>
  The two branches of \<open>create_vector_store\<close> end alike: the store is assigned and the
  elapsed time is written to \<open>stats\<close>.
\<close>

definition store_and_time :: "env \<Rightarrow> agent \<Rightarrow> real \<Rightarrow> world \<Rightarrow> unit res" where
  "store_and_time e a start_time w =
     (let a1 = a\<lparr>vector_store := Some (Chroma (vector_store_path a) (embeddings a))\<rparr>;
          (t, w1) = time_time e w in
      (Inr (), a1, stats_setitem a1 ''processing_time'' (PyFloat (t - start_time)) w1))"

definition create_vector_store :: "env \<Rightarrow> agent \<Rightarrow> document list \<Rightarrow> world \<Rightarrow> unit res" where
  "create_vector_store e a0 chunks w0 =
     (case (if embeddings a0 = None then setup_embeddings e a0 w0 else (Inr (), a0, w0)) of
        (Inl err, a, w) \<Rightarrow> (Inl err, a, w)
      | (Inr u, a, w) \<Rightarrow>
          (let (start_time, w1) = time_time e w;
               db = vector_store_path a @ ''/chroma.sqlite3'';
               w2 = record_call (PathExists db) w1 in
           if path_exists e db then
             (let w3 = record_call (ChromaOpen (vector_store_path a) (embeddings a)) w2 in
              case chroma_open e (vector_store_path a) (embeddings a) of
                Some err \<Rightarrow> (Inl err, a, w3)
              | None \<Rightarrow> store_and_time e a start_time w3)
           else
             (let w3 = record_call
                         (ChromaFromDocuments chunks (embeddings a) (vector_store_path a)) w2 in
              case chroma_from_documents e chunks (embeddings a) (vector_store_path a) of
                Some err \<Rightarrow> (Inl err, a, w3)
              | None \<Rightarrow> store_and_time e a start_time w3)))"

definition setup_retriever :: "env \<Rightarrow> agent \<Rightarrow> int \<Rightarrow> world \<Rightarrow> unit res" where
  "setup_retriever e a k w =
     (case vector_store a of
        None \<Rightarrow>
          (Inl (AttributeError ([CHR 0x27] @ ''NoneType'' @ [CHR 0x27] @
                  '' object has no attribute '' @ [CHR 0x27] @ ''as_retriever'' @ [CHR 0x27])),
           a, w)
      | Some vs \<Rightarrow>
          (let w1 = record_call (AsRetriever vs k) w in
           case as_retriever e vs k of
             Some err \<Rightarrow> (Inl err, a, w1)
           | None \<Rightarrow>
               (Inr (), a\<lparr>retriever := Some (VectorStoreRetriever vs ''similarity'' k)\<rparr>, w1)))"

text \<open>\<open>not api_key\<close> holds for \<open>None\<close> and for the empty string.\<close>

definition setup_llm :: "env \<Rightarrow> agent \<Rightarrow> world \<Rightarrow> unit res" where
  "setup_llm e a w =
     (let w1 = record_call (Getenv ''OPENAI_API_KEY'') w in
      case getenv e ''OPENAI_API_KEY'' of
        None \<Rightarrow> (Inl (ValueError ''OPENAI_API_KEY not found in environment variables''), a, w1)
      | Some api_key \<Rightarrow>
          if api_key = [] then
            (Inl (ValueError ''OPENAI_API_KEY not found in environment variables''), a, w1)
          else
            (let w2 = record_call (ChatOpenAIInit api_key) w1 in
             case chat_openai_init e api_key of
               Some err \<Rightarrow> (Inl err, a, w2)
             | None \<Rightarrow>
                 (Inr (), a\<lparr>llm := Some (ChatOpenAI ''gpt-3.5-turbo'' 0 api_key)\<rparr>, w2)))"

definition create_rag_chain :: "env \<Rightarrow> agent \<Rightarrow> world \<Rightarrow> unit res" where
  "create_rag_chain e a w =
     (let w1 = record_call (ChainBuild (retriever a) (llm a)) w in
      case chain_build e (retriever a) (llm a) of
        Some err \<Rightarrow> (Inl err, a, w1)
      | None \<Rightarrow> (Inr (), a\<lparr>rag_chain := Some (RagChain (retriever a) (llm a))\<rparr>, w1))"

text \<open>
  \<open>initialize\<close>: the seven steps in the order of the source. The handler
  \<open>except Exception as e: print(...); raise\<close> re-raises the exception unchanged, so the
  first failing step decides the result and nothing is undone.
\<close>

definition initialize :: "env \<Rightarrow> agent \<Rightarrow> world \<Rightarrow> unit res" where
  "initialize e a w =
     (case load_documents e a w of
        (Inl err, a1, w1) \<Rightarrow> (Inl err, a1, w1)
      | (Inr documents, a1, w1) \<Rightarrow>
     (case create_chunks e a1 documents w1 of
        (Inl err, a2, w2) \<Rightarrow> (Inl err, a2, w2)
      | (Inr chunks, a2, w2) \<Rightarrow>
     (case setup_embeddings e a2 w2 of
        (Inl err, a3, w3) \<Rightarrow> (Inl err, a3, w3)
      | (Inr u3, a3, w3) \<Rightarrow>
     (case create_vector_store e a3 chunks w3 of
        (Inl err, a4, w4) \<Rightarrow> (Inl err, a4, w4)
      | (Inr u4, a4, w4) \<Rightarrow>
     (case setup_retriever e a4 3 w4 of
        (Inl err, a5, w5) \<Rightarrow> (Inl err, a5, w5)
      | (Inr u5, a5, w5) \<Rightarrow>
     (case setup_llm e a5 w5 of
        (Inl err, a6, w6) \<Rightarrow> (Inl err, a6, w6)
      | (Inr u6, a6, w6) \<Rightarrow> create_rag_chain e a6 w6))))))"

text \<open>
  \<open>ask_question\<close>: the guard on \<open>self.rag_chain\<close>, then the chain; an exception of the
  chain becomes the returned string.
\<close>

definition ask_question :: "env \<Rightarrow> agent \<Rightarrow> string \<Rightarrow> world \<Rightarrow> string res" where
  "ask_question e a question w =
     (case rag_chain a of
        None \<Rightarrow> (Inl (RuntimeError ''Agent not initialized. Call initialize() first.''), a, w)
      | Some chain \<Rightarrow>
          (let w1 = record_call (ChainInvoke chain question) w in
           case chain_invoke e chain question of
             Inr answer \<Rightarrow> (Inr answer, a, w1)
           | Inl err \<Rightarrow> (Inr (''Error processing question: '' @ str err), a, w1)))"

text \<open>
  \<open>search_documents\<close>: the truth test on \<open>self.vector_store\<close>, then the store's own
  search. The test asks the store for its length; if that call raises, so does the method.
\<close>

definition search_documents :: "env \<Rightarrow> agent \<Rightarrow> string \<Rightarrow> int \<Rightarrow> world \<Rightarrow> document list res" where
  "search_documents e a query k w =
     (case vector_store a of
        None \<Rightarrow> (Inl (RuntimeError ''Vector store not initialized''), a, w)
      | Some vs \<Rightarrow>
          (let w1 = record_call (ChromaLen vs) w in
           case chroma_len e vs of
             Inl err \<Rightarrow> (Inl err, a, w1)
           | Inr n \<Rightarrow>
               if n = 0 then (Inl (RuntimeError ''Vector store not initialized''), a, w1)
               else (similarity_search e vs query k, a,
                     record_call (SimilaritySearch vs query k) w1)))"

text \<open>
  \<open>get_stats\<close>: \<open>self.stats.copy()\<close> allocates a new dictionary with the same items and
  returns its address. The items are numbers, so the copy shares nothing that can be
  changed with the original.
\<close>

definition get_stats :: "agent \<Rightarrow> world \<Rightarrow> nat res" where
  "get_stats a w = (Inr (length (heap w)), a, w\<lparr>heap := heap w @ [heap w ! stats a]\<rparr>)"

section \<open>Notions used to state the properties\<close>

text \<open>
  The pages of a list of files, in order, as the PDF loader gives them; and the calls
  that \<open>load_documents\<close> makes when every file loads.
\<close>

definition pages :: "env \<Rightarrow> string list \<Rightarrow> document list" where
  "pages e fs = concat (map (\<lambda>f. case pdf_load e f of Inl err \<Rightarrow> [] | Inr docs \<Rightarrow> docs) fs)"

definition load_trace :: "env \<Rightarrow> agent \<Rightarrow> call list" where
  "load_trace e a =
     PathExists (data_directory a) # GlobPdf (data_directory a) #
     map PdfLoad (glob_pdf e (data_directory a))"

text \<open>
  The call by which \<open>create_vector_store\<close> obtains the store, and what the environment
  answers to it: the persisted index is opened when the database file is there, and a new
  index is built from the chunks when it is not.
\<close>

definition store_call :: "env \<Rightarrow> agent \<Rightarrow> document list \<Rightarrow> call" where
  "store_call e a chunks =
     (if path_exists e (vector_store_path a @ ''/chroma.sqlite3'')
      then ChromaOpen (vector_store_path a) (embeddings a)
      else ChromaFromDocuments chunks (embeddings a) (vector_store_path a))"

definition store_answer :: "env \<Rightarrow> agent \<Rightarrow> document list \<Rightarrow> error option" where
  "store_answer e a chunks =
     (if path_exists e (vector_store_path a @ ''/chroma.sqlite3'')
      then chroma_open e (vector_store_path a) (embeddings a)
      else chroma_from_documents e chunks (embeddings a) (vector_store_path a))"

text \<open>
  The objects a complete run of \<open>initialize\<close> builds from the configuration, and the
  calls that such a run makes after chunking, in the order of the source.
\<close>

definition embeddings_handle :: "agent \<Rightarrow> embeddings" where
  "embeddings_handle a = HuggingFaceEmbeddings (embedding_model a)"

definition store_handle :: "agent \<Rightarrow> vector_store" where
  "store_handle a = Chroma (vector_store_path a) (Some (embeddings_handle a))"

definition retriever_handle :: "agent \<Rightarrow> retriever" where
  "retriever_handle a = VectorStoreRetriever (store_handle a) ''similarity'' 3"

definition tail_trace :: "env \<Rightarrow> agent \<Rightarrow> document list \<Rightarrow> call list" where
  "tail_trace e a chunks =
     [EmbeddingsInit (embedding_model a),
      PathExists (vector_store_path a @ ''/chroma.sqlite3''),
      store_call e (a\<lparr>embeddings := Some (embeddings_handle a)\<rparr>) chunks,
      AsRetriever (store_handle a) 3,
      Getenv ''OPENAI_API_KEY''] @
     (case getenv e ''OPENAI_API_KEY'' of
        None \<Rightarrow> []
      | Some key \<Rightarrow>
          [ChatOpenAIInit key,
           ChainBuild (Some (retriever_handle a)) (Some (ChatOpenAI ''gpt-3.5-turbo'' 0 key))])"

section \<open>A client of the public interface\<close>

text \<open>
  What a caller can do once the agent exists: ask, search, read the statistics, and
  change a mapping it got from \<open>get_stats\<close>. \<open>Mutate i d\<close> is any in-place change
  (item assignment, deletion, \<open>clear\<close>, \<open>update\<close>) of the \<open>i\<close>-th mapping received so
  far, leaving it with the items \<open>d\<close>; a caller holds no other mapping of the agent.
  The state of a run is the agent, the addresses received so far and the world.
\<close>

datatype client_op = Ask string | Search string int | GetStats | Mutate nat pydict

fun client_step :: "env \<Rightarrow> client_op \<Rightarrow> agent \<times> nat list \<times> world \<Rightarrow> agent \<times> nat list \<times> world" where
  "client_step e (Ask question) (a, hs, w) =
     (case ask_question e a question w of (r, a', w') \<Rightarrow> (a', hs, w'))"
| "client_step e (Search query k) (a, hs, w) =
     (case search_documents e a query k w of (r, a', w') \<Rightarrow> (a', hs, w'))"
| "client_step e GetStats (a, hs, w) =
     (case get_stats a w of
        (Inr h, a', w') \<Rightarrow> (a', hs @ [h], w')
      | (Inl err, a', w') \<Rightarrow> (a', hs, w'))"
| "client_step e (Mutate i d) (a, hs, w) =
     (if i < length hs then (a, hs, w\<lparr>heap := (heap w)[hs ! i := d]\<rparr>) else (a, hs, w))"

fun client_run :: "env \<Rightarrow> client_op list \<Rightarrow> agent \<times> nat list \<times> world \<Rightarrow> agent \<times> nat list \<times> world" where
  "client_run e [] s = s"
| "client_run e (op # ops) s = client_run e ops (client_step e op s)"

text \<open>
  What holds throughout a client run: the dictionary of the agent is allocated, and every
  address the client holds is allocated and differs from the agent's.
\<close>

definition client_inv :: "agent \<times> nat list \<times> world \<Rightarrow> bool" where
  "client_inv s =
     (case s of (a, hs, w) \<Rightarrow>
        stats a < length (heap w) \<and> list_all (\<lambda>h. h < length (heap w) \<and> h \<noteq> stats a) hs)"

section \<open>Concrete runs\<close>

text \<open>
  A data directory with one two-page PDF, every service available, the credential set
  and no persisted index; then the same world with the credential missing, with an
  empty credential next to a persisted index, with a persisted index, with a second
  file that the PDF loader rejects, with the splitter, the embedding model, the store,
  the retriever or the chain failing, without the data directory, and with no PDF in it.
  The persisted and the new index both hold two documents.
\<close>

definition page_a :: document where
  "page_a = \<lparr>page_content = ''Solar capacity doubled.'',
             metadata = [(''source'', ''data/report.pdf''), (''page'', ''0'')]\<rparr>"

definition page_b :: document where
  "page_b = \<lparr>page_content = ''Wind output fell.'',
             metadata = [(''source'', ''data/report.pdf''), (''page'', ''1'')]\<rparr>"

definition env_ready :: env where
  "env_ready =
     \<lparr>path_exists = (\<lambda>p. p = ''data''),
      glob_pdf = (\<lambda>d. if d = ''data'' then [''data/report.pdf''] else []),
      pdf_load = (\<lambda>f. if f = ''data/report.pdf'' then Inr [page_a, page_b]
                        else Inl (ServiceError ''invalid pdf header'')),
      split_documents = (\<lambda>csize coverlap docs. Inr docs),
      embeddings_init = (\<lambda>m. None),
      chroma_open = (\<lambda>p emb. None),
      chroma_from_documents = (\<lambda>docs emb p. None),
      as_retriever = (\<lambda>vs k. None),
      getenv = (\<lambda>n. if n = ''OPENAI_API_KEY'' then Some ''sk-test'' else None),
      chat_openai_init = (\<lambda>key. None),
      chain_build = (\<lambda>r l. None),
      chain_invoke = (\<lambda>c q. if q = [] then Inl (ServiceError ''empty prompt'')
                             else Inr ''Solar capacity doubled.''),
      chroma_len = (\<lambda>vs. Inr 2),
      similarity_search = (\<lambda>vs q k. Inr (if 0 < k then [page_a] else [])),
      clock = (\<lambda>n. real n)\<rparr>"

definition env_nokey :: env where
  "env_nokey = env_ready\<lparr>getenv := (\<lambda>n. None)\<rparr>"

definition env_emptykey_reuse :: env where
  "env_emptykey_reuse =
     env_ready\<lparr>getenv := (\<lambda>n. Some []),
               path_exists := (\<lambda>p. p = ''data'' \<or> p = ''./chroma_db/chroma.sqlite3'')\<rparr>"

definition env_reuse :: env where
  "env_reuse =
     env_ready\<lparr>path_exists := (\<lambda>p. p = ''data'' \<or> p = ''./chroma_db/chroma.sqlite3'')\<rparr>"


definition env_nosplit :: env where
  "env_nosplit =
     env_ready\<lparr>split_documents := (\<lambda>csize coverlap docs. Inl (ServiceError ''splitter failed''))\<rparr>"

definition env_noembed :: env where
  "env_noembed = env_ready\<lparr>embeddings_init := (\<lambda>m. Some (ServiceError ''model not found''))\<rparr>"

definition env_nostore :: env where
  "env_nostore =
     env_ready\<lparr>chroma_from_documents := (\<lambda>docs emb p. Some (ServiceError ''disk full''))\<rparr>"

definition env_noretriever :: env where
  "env_noretriever =
     env_ready\<lparr>as_retriever := (\<lambda>vs k. Some (ServiceError ''bad search type''))\<rparr>"

definition env_nochain :: env where
  "env_nochain = env_ready\<lparr>chain_build := (\<lambda>r l. Some (ServiceError ''not runnable''))\<rparr>"

definition env_nodir :: env where
  "env_nodir = env_ready\<lparr>path_exists := (\<lambda>p. False)\<rparr>"

definition env_nofiles :: env where
  "env_nofiles = env_ready\<lparr>glob_pdf := (\<lambda>d. [])\<rparr>"

definition world0 :: world where
  "world0 = \<lparr>heap = [], calls = [], ticks = 0\<rparr>"

text \<open>\<open>DocumentIntelligenceAgent()\<close> with the default arguments, in the empty world.\<close>

definition agent0 :: agent where
  "agent0 = fst (init_agent ''data'' ''./chroma_db''
                   ''sentence-transformers/all-MiniLM-L6-v2'' 1000 200 world0)"

definition world1 :: world where
  "world1 = snd (init_agent ''data'' ''./chroma_db''
                   ''sentence-transformers/all-MiniLM-L6-v2'' 1000 200 world0)"

text \<open>
  The agent and the world after \<open>initialize\<close> in four of these environments: the
  complete run that builds a new index, the complete run that opens the persisted one,
  the run that stops at the missing credential after building a new index, and the run
  that stops at the empty credential after opening the persisted one.
\<close>

definition agent_indexed :: agent where
  "agent_indexed =
     agent0\<lparr>embeddings := Some (embeddings_handle agent0),
             vector_store := Some (store_handle agent0),
             retriever := Some (retriever_handle agent0)\<rparr>"

definition agent_ready :: agent where
  "agent_ready =
     agent_indexed\<lparr>llm := Some (ChatOpenAI ''gpt-3.5-turbo'' 0 ''sk-test''),
                    rag_chain := Some (RagChain (Some (retriever_handle agent0))
                                         (Some (ChatOpenAI ''gpt-3.5-turbo'' 0 ''sk-test'')))\<rparr>"

definition calls_built :: "call list" where
  "calls_built =
     [PathExists ''data'', GlobPdf ''data'', PdfLoad ''data/report.pdf'',
      SplitDocuments 1000 200 [page_a, page_b],
      EmbeddingsInit ''sentence-transformers/all-MiniLM-L6-v2'',
      PathExists ''./chroma_db/chroma.sqlite3'',
      ChromaFromDocuments [page_a, page_b] (Some (embeddings_handle agent0)) ''./chroma_db'',
      AsRetriever (store_handle agent0) 3,
      Getenv ''OPENAI_API_KEY'']"

definition calls_reused :: "call list" where
  "calls_reused =
     [PathExists ''data'', GlobPdf ''data'', PdfLoad ''data/report.pdf'',
      SplitDocuments 1000 200 [page_a, page_b],
      EmbeddingsInit ''sentence-transformers/all-MiniLM-L6-v2'',
      PathExists ''./chroma_db/chroma.sqlite3'',
      ChromaOpen ''./chroma_db'' (Some (embeddings_handle agent0)),
      AsRetriever (store_handle agent0) 3,
      Getenv ''OPENAI_API_KEY'']"

definition heap_indexed :: "pydict list" where
  "heap_indexed =
     [[(''documents_loaded'', PyInt 2), (''chunks_created'', PyInt 2),
       (''processing_time'', PyFloat 1)]]"

definition world_ready :: world where
  "world_ready =
     \<lparr>heap = heap_indexed,
      calls = calls_built @
        [ChatOpenAIInit ''sk-test'',
         ChainBuild (Some (retriever_handle agent0))
           (Some (ChatOpenAI ''gpt-3.5-turbo'' 0 ''sk-test''))],
      ticks = 2\<rparr>"

definition world_reused :: world where
  "world_reused =
     \<lparr>heap = heap_indexed,
      calls = calls_reused @
        [ChatOpenAIInit ''sk-test'',
         ChainBuild (Some (retriever_handle agent0))
           (Some (ChatOpenAI ''gpt-3.5-turbo'' 0 ''sk-test''))],
      ticks = 2\<rparr>"

definition world_nokey :: world where
  "world_nokey = \<lparr>heap = heap_indexed, calls = calls_built, ticks = 2\<rparr>"

definition world_emptykey_reuse :: world where
  "world_emptykey_reuse = \<lparr>heap = heap_indexed, calls = calls_reused, ticks = 2\<rparr>"

section \<open>The steps of initialization, one by one\<close>

text \<open>
  What each step returns and how it leaves the agent and the world, read off its
  definition; for the loading loop, by induction on the list of files.
\<close>

lemma load_files_world:
  "load_files e fs acc w = (r, w') \<Longrightarrow>
     \<exists>n\<le>length fs. w' = w\<lparr>calls := calls w @ map PdfLoad (take n fs)\<rparr>"
proof (induction fs arbitrary: acc w)
  case Nil
  then show ?case by simp
next
  case (Cons f fs)
  show ?case
  proof (cases "pdf_load e f")
    case (Inl err)
    with Cons.prems have "w' = w\<lparr>calls := calls w @ map PdfLoad (take 1 (f # fs))\<rparr>"
      by (simp add: record_call_def)
    then show ?thesis by (intro exI[of _ 1]) simp
  next
    case (Inr docs)
    with Cons.prems have "load_files e fs (acc @ docs) (record_call (PdfLoad f) w) = (r, w')"
      by simp
    from Cons.IH[OF this] obtain n where n: "n \<le> length fs"
      "w' = (record_call (PdfLoad f) w)\<lparr>calls := calls (record_call (PdfLoad f) w) @ map PdfLoad (take n fs)\<rparr>"
      by blast
    then have "w' = w\<lparr>calls := calls w @ map PdfLoad (take (Suc n) (f # fs))\<rparr>"
      by (simp add: record_call_def)
    with n(1) show ?thesis by (intro exI[of _ "Suc n"]) simp
  qed
qed

lemma load_files_ok:
  "\<forall>f\<in>set fs. \<exists>docs. pdf_load e f = Inr docs \<Longrightarrow>
     load_files e fs acc w = (Inr (acc @ pages e fs), w\<lparr>calls := calls w @ map PdfLoad fs\<rparr>)"
  by (induction fs arbitrary: acc w) (auto simp: pages_def record_call_def)

lemma load_files_Inr:
  "load_files e fs acc w = (Inr documents, w') \<Longrightarrow>
     (\<forall>f\<in>set fs. \<exists>docs. pdf_load e f = Inr docs)"
  by (induction fs arbitrary: acc w) (auto simp: Let_def split: sum.splits)




lemma new_calls_append [simp]: "new_calls w (w'\<lparr>calls := calls w @ cs\<rparr>) = cs"
  by (simp add: new_calls_def)

lemma new_calls_append_eq: "calls w' = calls w @ cs \<Longrightarrow> new_calls w w' = cs"
  by (simp add: new_calls_def)

lemma stats_setitem_simps [simp]:
  "calls (stats_setitem a k v w) = calls w"
  "ticks (stats_setitem a k v w) = ticks w"
  "length (heap (stats_setitem a k v w)) = length (heap w)"
  by (simp_all add: stats_setitem_def heap_setitem_def)

lemma load_documents_Inr:
  assumes "load_documents e a w = (Inr docs, a1, w1)"
  shows "a1 = a"
    and "path_exists e (data_directory a)"
    and "glob_pdf e (data_directory a) \<noteq> []"
    and "\<forall>f\<in>set (glob_pdf e (data_directory a)). \<exists>ds. pdf_load e f = Inr ds"
    and "docs = pages e (glob_pdf e (data_directory a))"
    and "w1 = stats_setitem a ''documents_loaded'' (PyInt (int (length docs)))
                (w\<lparr>calls := calls w @ load_trace e a\<rparr>)"
proof -
  let ?fs = "glob_pdf e (data_directory a)"
  let ?w2 = "record_call (GlobPdf (data_directory a)) (record_call (PathExists (data_directory a)) w)"
  from assms show ex: "path_exists e (data_directory a)" and ne: "?fs \<noteq> []"
    by (auto simp: load_documents_def Let_def split: if_splits)
  from assms ex ne obtain w3 where lf: "load_files e ?fs [] ?w2 = (Inr docs, w3)"
    and rest: "a1 = a" "w1 = stats_setitem a ''documents_loaded'' (PyInt (int (length docs))) w3"
    by (auto simp: load_documents_def Let_def split: prod.splits sum.splits)
  from rest show "a1 = a" by simp
  from load_files_Inr[OF lf] show all: "\<forall>f\<in>set ?fs. \<exists>ds. pdf_load e f = Inr ds" .
  from load_files_ok[OF all, of "[]" ?w2] lf
  have "docs = pages e ?fs" "w3 = ?w2\<lparr>calls := calls ?w2 @ map PdfLoad ?fs\<rparr>" by simp_all
  then show "docs = pages e ?fs"
    and "w1 = stats_setitem a ''documents_loaded'' (PyInt (int (length docs)))
                (w\<lparr>calls := calls w @ load_trace e a\<rparr>)"
    using rest by (simp_all add: record_call_def load_trace_def)
qed

lemma load_documents_Inl:
  assumes "load_documents e a w = (Inl err, a1, w1)"
  shows "a1 = a" and "\<exists>n. w1 = w\<lparr>calls := calls w @ take n (load_trace e a)\<rparr>"
proof -
  let ?d = "data_directory a"
  let ?fs = "glob_pdf e ?d"
  let ?w2 = "record_call (GlobPdf ?d) (record_call (PathExists ?d) w)"
  from assms show "a1 = a"
    by (auto simp: load_documents_def Let_def split: if_splits prod.splits sum.splits)
  consider (missing) "\<not> path_exists e ?d" | (empty) "path_exists e ?d" "?fs = []"
    | (files) "path_exists e ?d" "?fs \<noteq> []" by blast
  then show "\<exists>n. w1 = w\<lparr>calls := calls w @ take n (load_trace e a)\<rparr>"
  proof cases
    case missing
    with assms have "w1 = w\<lparr>calls := calls w @ take 1 (load_trace e a)\<rparr>"
      by (auto simp: load_documents_def Let_def record_call_def load_trace_def)
    then show ?thesis ..
  next
    case empty
    with assms have "w1 = w\<lparr>calls := calls w @ take 2 (load_trace e a)\<rparr>"
      by (auto simp: load_documents_def Let_def record_call_def load_trace_def)
    then show ?thesis ..
  next
    case files
    with assms obtain r where "load_files e ?fs [] ?w2 = (r, w1)"
      by (auto simp: load_documents_def Let_def split: prod.splits sum.splits)
    from load_files_world[OF this] obtain n where
      "w1 = ?w2\<lparr>calls := calls ?w2 @ map PdfLoad (take n ?fs)\<rparr>" by blast
    then have "w1 = w\<lparr>calls := calls w @ take (Suc (Suc n)) (load_trace e a)\<rparr>"
      by (simp add: record_call_def load_trace_def take_map)
    then show ?thesis ..
  qed
qed


lemma create_chunks_Inr:
  assumes "create_chunks e a docs w = (Inr chunks, a2, w2)"
  shows "a2 = a"
    and "split_documents e (chunk_size a) (chunk_overlap a) docs = Inr chunks"
    and "w2 = stats_setitem a ''chunks_created'' (PyInt (int (length chunks)))
                (w\<lparr>calls := calls w @ [SplitDocuments (chunk_size a) (chunk_overlap a) docs]\<rparr>)"
  using assms by (auto simp: create_chunks_def Let_def record_call_def split: sum.splits)

lemma create_chunks_Inl:
  assumes "create_chunks e a docs w = (Inl err, a2, w2)"
  shows "a2 = a"
    and "split_documents e (chunk_size a) (chunk_overlap a) docs = Inl err"
    and "w2 = w\<lparr>calls := calls w @ [SplitDocuments (chunk_size a) (chunk_overlap a) docs]\<rparr>"
  using assms by (auto simp: create_chunks_def Let_def record_call_def split: sum.splits)

lemma setup_embeddings_Inr:
  assumes "setup_embeddings e a w = (Inr u, a3, w3)"
  shows "a3 = a\<lparr>embeddings := Some (HuggingFaceEmbeddings (embedding_model a))\<rparr>"
    and "embeddings_init e (embedding_model a) = None"
    and "w3 = w\<lparr>calls := calls w @ [EmbeddingsInit (embedding_model a)]\<rparr>"
  using assms by (auto simp: setup_embeddings_def Let_def record_call_def split: option.splits)

lemma setup_embeddings_Inl:
  assumes "setup_embeddings e a w = (Inl err, a3, w3)"
  shows "a3 = a"
    and "embeddings_init e (embedding_model a) = Some err"
    and "w3 = w\<lparr>calls := calls w @ [EmbeddingsInit (embedding_model a)]\<rparr>"
  using assms by (auto simp: setup_embeddings_def Let_def record_call_def split: option.splits)

lemma create_vector_store_Inr:
  assumes "create_vector_store e a chunks w = (Inr u, a4, w4)" and "embeddings a \<noteq> None"
  shows "a4 = a\<lparr>vector_store := Some (Chroma (vector_store_path a) (embeddings a))\<rparr>"
    and "store_answer e a chunks = None"
    and "w4 = stats_setitem a ''processing_time''
                (PyFloat (clock e (Suc (ticks w)) - clock e (ticks w)))
                (w\<lparr>calls := calls w @
                     [PathExists (vector_store_path a @ ''/chroma.sqlite3''), store_call e a chunks],
                   ticks := Suc (Suc (ticks w))\<rparr>)"
  using assms
  by (auto simp: create_vector_store_def store_and_time_def time_time_def stats_setitem_def
        store_call_def store_answer_def Let_def record_call_def split: option.splits if_splits)

lemma create_vector_store_Inl:
  assumes "create_vector_store e a chunks w = (Inl err, a4, w4)" and "embeddings a \<noteq> None"
  shows "a4 = a"
    and "store_answer e a chunks = Some err"
    and "w4 = w\<lparr>calls := calls w @
                  [PathExists (vector_store_path a @ ''/chroma.sqlite3''), store_call e a chunks],
                ticks := Suc (ticks w)\<rparr>"
  using assms
  by (auto simp: create_vector_store_def store_and_time_def time_time_def stats_setitem_def
        store_call_def store_answer_def Let_def record_call_def split: option.splits if_splits)

lemma setup_retriever_Inr:
  assumes "setup_retriever e a k w = (Inr u, a5, w5)" and "vector_store a = Some vs"
  shows "a5 = a\<lparr>retriever := Some (VectorStoreRetriever vs ''similarity'' k)\<rparr>"
    and "as_retriever e vs k = None"
    and "w5 = w\<lparr>calls := calls w @ [AsRetriever vs k]\<rparr>"
  using assms by (auto simp: setup_retriever_def Let_def record_call_def split: option.splits)

lemma setup_retriever_Inl:
  assumes "setup_retriever e a k w = (Inl err, a5, w5)" and "vector_store a = Some vs"
  shows "a5 = a"
    and "as_retriever e vs k = Some err"
    and "w5 = w\<lparr>calls := calls w @ [AsRetriever vs k]\<rparr>"
  using assms by (auto simp: setup_retriever_def Let_def record_call_def split: option.splits)

lemma setup_llm_Inr:
  assumes "setup_llm e a w = (Inr u, a6, w6)"
  shows "\<exists>key. getenv e ''OPENAI_API_KEY'' = Some key \<and> key \<noteq> [] \<and>
           chat_openai_init e key = None \<and>
           a6 = a\<lparr>llm := Some (ChatOpenAI ''gpt-3.5-turbo'' 0 key)\<rparr> \<and>
           w6 = w\<lparr>calls := calls w @ [Getenv ''OPENAI_API_KEY'', ChatOpenAIInit key]\<rparr>"
  using assms
  by (auto simp: setup_llm_def Let_def record_call_def split: option.splits if_splits)

lemma setup_llm_Inl:
  assumes "setup_llm e a w = (Inl err, a6, w6)"
  shows "a6 = a"
    and "((getenv e ''OPENAI_API_KEY'' = None \<or> getenv e ''OPENAI_API_KEY'' = Some []) \<and>
          err = ValueError ''OPENAI_API_KEY not found in environment variables'' \<and>
          w6 = w\<lparr>calls := calls w @ [Getenv ''OPENAI_API_KEY'']\<rparr>) \<or>
         (\<exists>key. getenv e ''OPENAI_API_KEY'' = Some key \<and> key \<noteq> [] \<and>
            chat_openai_init e key = Some err \<and>
            w6 = w\<lparr>calls := calls w @ [Getenv ''OPENAI_API_KEY'', ChatOpenAIInit key]\<rparr>)"
  using assms
  by (auto simp: setup_llm_def Let_def record_call_def split: option.splits if_splits)

lemma create_rag_chain_Inr:
  assumes "create_rag_chain e a w = (Inr u, a7, w7)"
  shows "a7 = a\<lparr>rag_chain := Some (RagChain (retriever a) (llm a))\<rparr>"
    and "chain_build e (retriever a) (llm a) = None"
    and "w7 = w\<lparr>calls := calls w @ [ChainBuild (retriever a) (llm a)]\<rparr>"
  using assms by (auto simp: create_rag_chain_def Let_def record_call_def split: option.splits)

lemma create_rag_chain_Inl:
  assumes "create_rag_chain e a w = (Inl err, a7, w7)"
  shows "a7 = a"
    and "chain_build e (retriever a) (llm a) = Some err"
    and "w7 = w\<lparr>calls := calls w @ [ChainBuild (retriever a) (llm a)]\<rparr>"
  using assms by (auto simp: create_rag_chain_def Let_def record_call_def split: option.splits)

lemma initialize_cases:
  assumes "initialize e a w = (r, a', w')"
  obtains
    (load) err where "r = Inl err" "load_documents e a w = (Inl err, a', w')"
  | (chunks) err docs a1 w1 where "r = Inl err"
      "load_documents e a w = (Inr docs, a1, w1)"
      "create_chunks e a1 docs w1 = (Inl err, a', w')"
  | (embed) err docs a1 w1 chunks a2 w2 where "r = Inl err"
      "load_documents e a w = (Inr docs, a1, w1)"
      "create_chunks e a1 docs w1 = (Inr chunks, a2, w2)"
      "setup_embeddings e a2 w2 = (Inl err, a', w')"
  | (store) err docs a1 w1 chunks a2 w2 a3 w3 where "r = Inl err"
      "load_documents e a w = (Inr docs, a1, w1)"
      "create_chunks e a1 docs w1 = (Inr chunks, a2, w2)"
      "setup_embeddings e a2 w2 = (Inr (), a3, w3)"
      "create_vector_store e a3 chunks w3 = (Inl err, a', w')"
  | (retr) err docs a1 w1 chunks a2 w2 a3 w3 a4 w4 where "r = Inl err"
      "load_documents e a w = (Inr docs, a1, w1)"
      "create_chunks e a1 docs w1 = (Inr chunks, a2, w2)"
      "setup_embeddings e a2 w2 = (Inr (), a3, w3)"
      "create_vector_store e a3 chunks w3 = (Inr (), a4, w4)"
      "setup_retriever e a4 3 w4 = (Inl err, a', w')"
  | (llm) err docs a1 w1 chunks a2 w2 a3 w3 a4 w4 a5 w5 where "r = Inl err"
      "load_documents e a w = (Inr docs, a1, w1)"
      "create_chunks e a1 docs w1 = (Inr chunks, a2, w2)"
      "setup_embeddings e a2 w2 = (Inr (), a3, w3)"
      "create_vector_store e a3 chunks w3 = (Inr (), a4, w4)"
      "setup_retriever e a4 3 w4 = (Inr (), a5, w5)"
      "setup_llm e a5 w5 = (Inl err, a', w')"
  | (rest) docs a1 w1 chunks a2 w2 a3 w3 a4 w4 a5 w5 a6 w6 where
      "load_documents e a w = (Inr docs, a1, w1)"
      "create_chunks e a1 docs w1 = (Inr chunks, a2, w2)"
      "setup_embeddings e a2 w2 = (Inr (), a3, w3)"
      "create_vector_store e a3 chunks w3 = (Inr (), a4, w4)"
      "setup_retriever e a4 3 w4 = (Inr (), a5, w5)"
      "setup_llm e a5 w5 = (Inr (), a6, w6)"
      "create_rag_chain e a6 w6 = (r, a', w')"
  using assms unfolding initialize_def
  by (auto split: prod.splits sum.splits)

lemma agent0_simps [simp]:
  "data_directory agent0 = ''data''"
  "vector_store_path agent0 = ''./chroma_db''"
  "embedding_model agent0 = ''sentence-transformers/all-MiniLM-L6-v2''"
  "chunk_size agent0 = 1000" "chunk_overlap agent0 = 200"
  "embeddings agent0 = None" "vector_store agent0 = None" "retriever agent0 = None"
  "llm agent0 = None" "rag_chain agent0 = None" "stats agent0 = 0"
  by (simp_all add: agent0_def init_agent_def world0_def)

lemma world1_simps [simp]:
  "heap world1 = [[(''documents_loaded'', PyInt 0), (''chunks_created'', PyInt 0),
                   (''processing_time'', PyInt 0)]]"
  "calls world1 = []" "ticks world1 = 0"
  by (simp_all add: world1_def init_agent_def world0_def)

section \<open>The document loader\<close>

lemma load_documents_all_loaded:
  assumes "path_exists e (data_directory a)" and "glob_pdf e (data_directory a) \<noteq> []"
    and "\<forall>f\<in>set (glob_pdf e (data_directory a)). \<exists>docs. pdf_load e f = Inr docs"
  shows "load_documents e a w =
           (Inr (pages e (glob_pdf e (data_directory a))), a,
            stats_setitem a ''documents_loaded''
              (PyInt (int (length (pages e (glob_pdf e (data_directory a))))))
              (w\<lparr>calls := calls w @ load_trace e a\<rparr>))"
  using assms load_files_ok[OF assms(3)]
  by (simp add: load_documents_def Let_def record_call_def load_trace_def)






section \<open>Runs of \<open>initialize\<close>\<close>

lemma heap_setitem_length [simp]: "length (heap_setitem r k v h) = length h"
  by (simp add: heap_setitem_def)

lemma heap_setitem_lookup:
  "r < length h \<Longrightarrow>
     map_of (heap_setitem r k v h ! r) k' = (if k' = k then Some v else map_of (h ! r) k')"
  by (simp add: heap_setitem_def update_conv')

lemma heap_setitem_other: "r' \<noteq> r \<Longrightarrow> heap_setitem r k v h ! r' = h ! r'"
  by (simp add: heap_setitem_def)

lemma heap_stats_setitem [simp]:
  "heap (stats_setitem a k v w) = heap_setitem (stats a) k v (heap w)"
  by (simp add: stats_setitem_def)

text \<open>A successful run, in full.\<close>

lemma initialize_Inr:
  assumes "initialize e a w = (Inr u, a', w')"
  shows "\<exists>key chunks.
      path_exists e (data_directory a) \<and> glob_pdf e (data_directory a) \<noteq> [] \<and>
      (\<forall>f\<in>set (glob_pdf e (data_directory a)). \<exists>ds. pdf_load e f = Inr ds) \<and>
      split_documents e (chunk_size a) (chunk_overlap a)
        (pages e (glob_pdf e (data_directory a))) = Inr chunks \<and>
      getenv e ''OPENAI_API_KEY'' = Some key \<and> key \<noteq> [] \<and>
      a' = a\<lparr>embeddings := Some (embeddings_handle a),
              vector_store := Some (store_handle a),
              retriever := Some (retriever_handle a),
              llm := Some (ChatOpenAI ''gpt-3.5-turbo'' 0 key),
              rag_chain := Some (RagChain (Some (retriever_handle a))
                                   (Some (ChatOpenAI ''gpt-3.5-turbo'' 0 key)))\<rparr> \<and>
      calls w' = calls w @ load_trace e a @
         SplitDocuments (chunk_size a) (chunk_overlap a)
           (pages e (glob_pdf e (data_directory a))) # tail_trace e a chunks \<and>
      heap w' =
         heap_setitem (stats a) ''processing_time''
           (PyFloat (clock e (Suc (ticks w)) - clock e (ticks w)))
           (heap_setitem (stats a) ''chunks_created'' (PyInt (int (length chunks)))
              (heap_setitem (stats a) ''documents_loaded''
                 (PyInt (int (length (pages e (glob_pdf e (data_directory a)))))) (heap w)))"
  using assms
proof (cases rule: initialize_cases)
  case (rest docs a1 w1 chunks a2 w2 a3 w3 a4 w4 a5 w5 a6 w6)
  note l = load_documents_Inr[OF rest(1)]
  note c = create_chunks_Inr[OF rest(2)]
  note m = setup_embeddings_Inr[OF rest(3)]
  have emb: "embeddings a3 \<noteq> None" using m(1) by simp
  note s = create_vector_store_Inr[OF rest(4) emb]
  have vs: "vector_store a4 = Some (store_handle a)"
    using s(1) m(1) c(1) l(1) by (simp add: store_handle_def embeddings_handle_def)
  note t = setup_retriever_Inr[OF rest(5) vs]
  from setup_llm_Inr[OF rest(6)] obtain key where k:
    "getenv e ''OPENAI_API_KEY'' = Some key" "key \<noteq> []"
    "a6 = a5\<lparr>llm := Some (ChatOpenAI ''gpt-3.5-turbo'' 0 key)\<rparr>"
    "w6 = w5\<lparr>calls := calls w5 @ [Getenv ''OPENAI_API_KEY'', ChatOpenAIInit key]\<rparr>"
    by blast
  note g = create_rag_chain_Inr[OF rest(7)]
  have a': "a' = a\<lparr>embeddings := Some (embeddings_handle a),
              vector_store := Some (store_handle a),
              retriever := Some (retriever_handle a),
              llm := Some (ChatOpenAI ''gpt-3.5-turbo'' 0 key),
              rag_chain := Some (RagChain (Some (retriever_handle a))
                                   (Some (ChatOpenAI ''gpt-3.5-turbo'' 0 key)))\<rparr>"
    using g(1) k(3) t(1) s(1) m(1) c(1) l(1)
    by (simp add: store_handle_def embeddings_handle_def retriever_handle_def)
  have calls: "calls w' = calls w @ load_trace e a @
         SplitDocuments (chunk_size a) (chunk_overlap a)
           (pages e (glob_pdf e (data_directory a))) # tail_trace e a chunks"
    using g(1,3) k t(1,3) s(1,3) m(1,3) c(1,3) l(1,5,6)
    by (simp add: tail_trace_def store_handle_def embeddings_handle_def retriever_handle_def
          store_call_def)
  have heap: "heap w' =
         heap_setitem (stats a) ''processing_time''
           (PyFloat (clock e (Suc (ticks w)) - clock e (ticks w)))
           (heap_setitem (stats a) ''chunks_created'' (PyInt (int (length chunks)))
              (heap_setitem (stats a) ''documents_loaded''
                 (PyInt (int (length (pages e (glob_pdf e (data_directory a)))))) (heap w)))"
    using g(1,3) k t(1,3) s(1,3) m(1,3) c(1,3) l(1,5,6) by simp
  have split: "split_documents e (chunk_size a) (chunk_overlap a)
        (pages e (glob_pdf e (data_directory a))) = Inr chunks"
    using c(2) l(1,5) by simp
  from l(2,3,4) split k(1,2) a' calls heap show ?thesis by blast
qed simp_all


lemma load_trace_kinds:
  "c \<in> set (load_trace e a) \<Longrightarrow>
     c = PathExists (data_directory a) \<or> c = GlobPdf (data_directory a) \<or> (\<exists>f. c = PdfLoad f)"
  by (auto simp: load_trace_def)

text \<open>A failed run: the chain is never assigned, and the store is assigned exactly when
  the retriever set-up was reached.\<close>

lemma initialize_Inl:
  assumes "initialize e a w = (Inl err, a', w')"
  shows "rag_chain a' = rag_chain a \<and> stats a' = stats a \<and>
         ((vector_store a' = vector_store a \<and> (\<forall>vs k. AsRetriever vs k \<notin> set (new_calls w w'))) \<or>
          (vector_store a' = Some (store_handle a) \<and>
           AsRetriever (store_handle a) 3 \<in> set (new_calls w w')))"
  using assms
proof (cases rule: initialize_cases)
  case (load err')
  from load_documents_Inl[OF load(2)] obtain n where
    "a' = a" "w' = w\<lparr>calls := calls w @ take n (load_trace e a)\<rparr>" by blast
  then show ?thesis by (auto dest!: in_set_takeD load_trace_kinds)
next
  case (chunks err' docs a1 w1)
  note l = load_documents_Inr[OF chunks(2)]
  note c = create_chunks_Inl[OF chunks(3)]
  have "new_calls w w' = load_trace e a @ [SplitDocuments (chunk_size a) (chunk_overlap a) docs]"
    using l(1,6) c(1,3) by (simp add: new_calls_def)
  with l(1) c(1) show ?thesis by (auto dest!: load_trace_kinds)
next
  case (embed err' docs a1 w1 chunks a2 w2)
  note l = load_documents_Inr[OF embed(2)]
  note c = create_chunks_Inr[OF embed(3)]
  note m = setup_embeddings_Inl[OF embed(4)]
  have "new_calls w w' = load_trace e a @
          [SplitDocuments (chunk_size a) (chunk_overlap a) docs, EmbeddingsInit (embedding_model a)]"
    using l(1,6) c(1,3) m(1,3) by (simp add: new_calls_def)
  with l(1) c(1) m(1) show ?thesis by (auto dest!: load_trace_kinds)
next
  case (store err' docs a1 w1 chunks a2 w2 a3 w3)
  note l = load_documents_Inr[OF store(2)]
  note c = create_chunks_Inr[OF store(3)]
  note m = setup_embeddings_Inr[OF store(4)]
  have emb: "embeddings a3 \<noteq> None" using m(1) by simp
  note s = create_vector_store_Inl[OF store(5) emb]
  have "new_calls w w' = load_trace e a @
          [SplitDocuments (chunk_size a) (chunk_overlap a) docs, EmbeddingsInit (embedding_model a),
           PathExists (vector_store_path a @ ''/chroma.sqlite3''), store_call e a3 chunks]"
    using l(1,6) c(1,3) m(1,3) s(1,3) by (simp add: new_calls_def)
  moreover have "\<And>vs k. AsRetriever vs k \<noteq> store_call e a3 chunks"
    by (simp add: store_call_def)
  ultimately show ?thesis using l(1) c(1) m(1) s(1) by (auto dest!: load_trace_kinds)
next
  case (retr err' docs a1 w1 chunks a2 w2 a3 w3 a4 w4)
  note l = load_documents_Inr[OF retr(2)]
  note c = create_chunks_Inr[OF retr(3)]
  note m = setup_embeddings_Inr[OF retr(4)]
  have emb: "embeddings a3 \<noteq> None" using m(1) by simp
  note s = create_vector_store_Inr[OF retr(5) emb]
  have vs: "vector_store a4 = Some (store_handle a)"
    using s(1) m(1) c(1) l(1) by (simp add: store_handle_def embeddings_handle_def)
  note t = setup_retriever_Inl[OF retr(6) vs]
  have "AsRetriever (store_handle a) 3 \<in> set (new_calls w w')"
    using l(1,6) c(1,3) m(1,3) s(1,3) t(1,3) by (simp add: new_calls_def)
  with vs t(1) s(1) m(1) c(1) l(1) show ?thesis by simp
next
  case (llm err' docs a1 w1 chunks a2 w2 a3 w3 a4 w4 a5 w5)
  note l = load_documents_Inr[OF llm(2)]
  note c = create_chunks_Inr[OF llm(3)]
  note m = setup_embeddings_Inr[OF llm(4)]
  have emb: "embeddings a3 \<noteq> None" using m(1) by simp
  note s = create_vector_store_Inr[OF llm(5) emb]
  have vs: "vector_store a4 = Some (store_handle a)"
    using s(1) m(1) c(1) l(1) by (simp add: store_handle_def embeddings_handle_def)
  note t = setup_retriever_Inr[OF llm(6) vs]
  note k = setup_llm_Inl[OF llm(7)]
  from k(2) have "\<exists>cs. calls w' = calls w5 @ cs" by auto
  then have "AsRetriever (store_handle a) 3 \<in> set (new_calls w w')"
    using l(1,6) c(1,3) m(1,3) s(1,3) t(1,3) by (auto simp: new_calls_def)
  with vs k(1) t(1) s(1) m(1) c(1) l(1) show ?thesis by simp
next
  case (rest docs a1 w1 chunks a2 w2 a3 w3 a4 w4 a5 w5 a6 w6)
  note l = load_documents_Inr[OF rest(1)]
  note c = create_chunks_Inr[OF rest(2)]
  note m = setup_embeddings_Inr[OF rest(3)]
  have emb: "embeddings a3 \<noteq> None" using m(1) by simp
  note s = create_vector_store_Inr[OF rest(4) emb]
  have vs: "vector_store a4 = Some (store_handle a)"
    using s(1) m(1) c(1) l(1) by (simp add: store_handle_def embeddings_handle_def)
  note t = setup_retriever_Inr[OF rest(5) vs]
  from setup_llm_Inr[OF rest(6)] obtain key where k:
    "a6 = a5\<lparr>llm := Some (ChatOpenAI ''gpt-3.5-turbo'' 0 key)\<rparr>"
    "w6 = w5\<lparr>calls := calls w5 @ [Getenv ''OPENAI_API_KEY'', ChatOpenAIInit key]\<rparr>"
    by blast
  note g = create_rag_chain_Inl[OF rest(7)]
  have "AsRetriever (store_handle a) 3 \<in> set (new_calls w w')"
    using l(1,6) c(1,3) m(1,3) s(1,3) t(1,3) k g(1,3) by (simp add: new_calls_def)
  with vs g(1) k(1) t(1) s(1) m(1) c(1) l(1) show ?thesis by simp
qed

section \<open>The concrete runs, evaluated\<close>

lemmas run_defs = initialize_def load_documents_def create_chunks_def setup_embeddings_def
        create_vector_store_def store_and_time_def setup_retriever_def setup_llm_def
        create_rag_chain_def record_call_def time_time_def stats_setitem_def heap_setitem_def
        Let_def embeddings_handle_def store_handle_def retriever_handle_def
        agent0_def world1_def world0_def init_agent_def agent_indexed_def agent_ready_def
        calls_built_def calls_reused_def heap_indexed_def

lemma initialize_ready_run:
  "initialize env_ready agent0 world1 = (Inr (), agent_ready, world_ready)"
  by (simp add: run_defs env_ready_def world_ready_def)

lemma initialize_nokey_run:
  "initialize env_nokey agent0 world1 =
     (Inl (ValueError ''OPENAI_API_KEY not found in environment variables''),
      agent_indexed, world_nokey)"
  by (simp add: run_defs env_ready_def env_nokey_def world_nokey_def)

lemma initialize_emptykey_reuse_run:
  "initialize env_emptykey_reuse agent0 world1 =
     (Inl (ValueError ''OPENAI_API_KEY not found in environment variables''),
      agent_indexed, world_emptykey_reuse)"
  by (simp add: run_defs env_ready_def env_emptykey_reuse_def world_emptykey_reuse_def)

lemma initialize_nodir_run:
  "initialize env_nodir agent0 world1 =
     (Inl (FileNotFoundError ''Data directory data not found''),
      agent0, world1\<lparr>calls := [PathExists ''data'']\<rparr>)"
  by (simp add: initialize_def load_documents_def record_call_def Let_def env_nodir_def env_ready_def)

section \<open>Asking questions\<close>

text \<open>
  Claim C8. After a successful \<open>initialize\<close> the agent holds an answer chain, and
  \<open>ask_question\<close> returns a string for every question, in every environment and world:
  the chain's answer when the chain returns, and \<open>Error processing question: \<close> followed
  by the message of the exception when the chain raises. It never raises itself. (The
  exceptions of the model are the instances of \<open>Exception\<close>, which is what the handler of
  the source catches.)
\<close>

theorem ask_question_never_raises:
  assumes "initialize e a w = (Inr u, a', w')"
  shows "\<exists>chain. rag_chain a' = Some chain \<and>
           (\<forall>e2 question w2.
              ask_question e2 a' question w2 =
                (Inr (case chain_invoke e2 chain question of
                        Inr answer \<Rightarrow> answer
                      | Inl err \<Rightarrow> ''Error processing question: '' @ str err),
                 a', record_call (ChainInvoke chain question) w2))"
proof -
  from initialize_Inr[OF assms] obtain chain where "rag_chain a' = Some chain" by auto
  then show ?thesis
    by (auto simp: ask_question_def Let_def split: sum.splits)
qed

text \<open>
  The complete run of the concrete world is a successful \<open>initialize\<close>; there the chain
  raises on the empty question and answers the other one.
\<close>

theorem ask_question_never_raises_witness:
  "fst (ask_question env_ready agent_ready [] world_ready) =
     Inr ''Error processing question: empty prompt'' \<and>
   fst (ask_question env_ready agent_ready ''What grew?'' world_ready) =
     Inr ''Solar capacity doubled.''"
proof -
  from ask_question_never_raises[OF initialize_ready_run] obtain chain where
    ask: "\<And>e2 question w2. ask_question e2 agent_ready question w2 =
                (Inr (case chain_invoke e2 chain question of
                        Inr answer \<Rightarrow> answer
                      | Inl err \<Rightarrow> ''Error processing question: '' @ str err),
                 agent_ready, record_call (ChainInvoke chain question) w2)"
    by blast
  show ?thesis by (simp add: ask env_ready_def)
qed

section \<open>The vector store\<close>

text \<open>
  Claim C5. \<open>create_vector_store\<close>, called with the embedding model set (as
  \<open>initialize\<close> always calls it), checks for the database file at the storage location
  and then makes exactly one call to the store. When the file is there, that call opens
  the persisted index: the chunks are passed to no external call, so none is embedded or
  stored. When the file is not there, the call builds a new index from exactly the chunks
  supplied. In both cases the method succeeds exactly when that call does, and then the
  agent holds the store at that location.
\<close>

theorem create_vector_store_reuse_or_build:
  assumes "create_vector_store e a chunks w = (r, a', w')"
    and "embeddings a \<noteq> None"
  shows "(path_exists e (vector_store_path a @ ''/chroma.sqlite3'') \<longrightarrow>
            new_calls w w' =
              [PathExists (vector_store_path a @ ''/chroma.sqlite3''),
               ChromaOpen (vector_store_path a) (embeddings a)] \<and>
            (r = Inr ()) = (chroma_open e (vector_store_path a) (embeddings a) = None)) \<and>
         (\<not> path_exists e (vector_store_path a @ ''/chroma.sqlite3'') \<longrightarrow>
            new_calls w w' =
              [PathExists (vector_store_path a @ ''/chroma.sqlite3''),
               ChromaFromDocuments chunks (embeddings a) (vector_store_path a)] \<and>
            (r = Inr ()) =
              (chroma_from_documents e chunks (embeddings a) (vector_store_path a) = None)) \<and>
         (r = Inr () \<longrightarrow>
            vector_store a' = Some (Chroma (vector_store_path a) (embeddings a)))"
proof (cases r)
  case (Inl err)
  with assms have run: "create_vector_store e a chunks w = (Inl err, a', w')" by simp
  note s = create_vector_store_Inl[OF run assms(2)]
  from s(2,3) Inl show ?thesis
    by (auto simp: store_call_def store_answer_def new_calls_def split: if_splits)
next
  case (Inr u)
  with assms have run: "create_vector_store e a chunks w = (Inr u, a', w')" by simp
  note s = create_vector_store_Inr[OF run assms(2)]
  from s Inr show ?thesis
    by (auto simp: store_call_def store_answer_def new_calls_def split: if_splits)
qed

text \<open>Both branches at a concrete agent: a persisted index is opened, a missing one built.\<close>

theorem create_vector_store_reuse_or_build_witness:
  "new_calls world1
     (snd (snd (create_vector_store env_reuse agent_indexed [page_a, page_b] world1))) =
     [PathExists ''./chroma_db/chroma.sqlite3'',
      ChromaOpen ''./chroma_db'' (Some (embeddings_handle agent0))] \<and>
   new_calls world1
     (snd (snd (create_vector_store env_ready agent_indexed [page_a, page_b] world1))) =
     [PathExists ''./chroma_db/chroma.sqlite3'',
      ChromaFromDocuments [page_a, page_b] (Some (embeddings_handle agent0)) ''./chroma_db''] \<and>
   fst (create_vector_store env_reuse agent_indexed [page_a, page_b] world1) = Inr () \<and>
   fst (create_vector_store env_ready agent_indexed [page_a, page_b] world1) = Inr ()"
proof -
  have emb: "embeddings agent_indexed \<noteq> None" by (simp add: agent_indexed_def)
  have 1: "create_vector_store env_reuse agent_indexed [page_a, page_b] world1 =
      (fst (create_vector_store env_reuse agent_indexed [page_a, page_b] world1),
       fst (snd (create_vector_store env_reuse agent_indexed [page_a, page_b] world1)),
       snd (snd (create_vector_store env_reuse agent_indexed [page_a, page_b] world1)))"
    by simp
  have 2: "create_vector_store env_ready agent_indexed [page_a, page_b] world1 =
      (fst (create_vector_store env_ready agent_indexed [page_a, page_b] world1),
       fst (snd (create_vector_store env_ready agent_indexed [page_a, page_b] world1)),
       snd (snd (create_vector_store env_ready agent_indexed [page_a, page_b] world1)))"
    by simp
  show ?thesis
    using create_vector_store_reuse_or_build[OF 1 emb]
      create_vector_store_reuse_or_build[OF 2 emb]
    by (simp add: env_reuse_def env_ready_def agent_indexed_def)
qed

section \<open>The guards of \<open>ask_question\<close> and \<open>search_documents\<close>\<close>

lemma ask_question_unset:
  "rag_chain a = None \<Longrightarrow>
     ask_question e a q w =
       (Inl (RuntimeError ''Agent not initialized. Call initialize() first.''), a, w)"
  by (simp add: ask_question_def)

lemma search_documents_unset:
  "vector_store a = None \<Longrightarrow>
     search_documents e a q k w = (Inl (RuntimeError ''Vector store not initialized''), a, w)"
  by (simp add: search_documents_def)

lemma search_documents_set:
  "vector_store a = Some vs \<Longrightarrow> chroma_len e vs = Inr n \<Longrightarrow> 0 < n \<Longrightarrow>
     fst (search_documents e a q k w) = similarity_search e vs q k"
  by (simp add: search_documents_def Let_def)

text \<open>
  Claim C1, as amended. Take an agent that has no store and no chain yet, as the
  constructor leaves it. \<open>initialize\<close> stops at the first step that raises, with that
  exception, and undoes nothing. Whichever step it is, the chain is still unset, so
  \<open>ask_question\<close> raises \<open>RuntimeError\<close> for every question. When the failing step is
  \<open>load_documents\<close>, \<open>create_chunks\<close>, \<open>setup_embeddings\<close> or \<open>create_vector_store\<close>, the
  store is still unset and \<open>search_documents\<close> raises \<open>RuntimeError\<close>. When the failing
  step is \<open>setup_retriever\<close>, \<open>setup_llm\<close> (the credential) or \<open>create_rag_chain\<close>, the
  store made by the run stays assigned, and \<open>search_documents\<close> on a store that holds
  documents returns what the similarity search of that store returns.
\<close>

theorem failed_initialize_state:
  assumes "vector_store a = None" and "rag_chain a = None"
  shows
    "(rag_chain b = None \<longrightarrow>
        ask_question f b question v =
          (Inl (RuntimeError ''Agent not initialized. Call initialize() first.''), b, v)) \<and>
     (vector_store b = None \<longrightarrow>
        search_documents f b query k v =
          (Inl (RuntimeError ''Vector store not initialized''), b, v)) \<and>
     (vector_store b = Some vs \<and> chroma_len f vs = Inr n \<and> 0 < n \<longrightarrow>
        fst (search_documents f b query k v) = similarity_search f vs query k) \<and>
     (load_documents e a w = (Inl err, a', w') \<longrightarrow>
        initialize e a w = (Inl err, a', w') \<and> rag_chain a' = None \<and> vector_store a' = None) \<and>
     (load_documents e a w = (Inr docs, a1, w1) \<and>
      create_chunks e a1 docs w1 = (Inl err, a', w') \<longrightarrow>
        initialize e a w = (Inl err, a', w') \<and> rag_chain a' = None \<and> vector_store a' = None) \<and>
     (load_documents e a w = (Inr docs, a1, w1) \<and>
      create_chunks e a1 docs w1 = (Inr chunks, a2, w2) \<and>
      setup_embeddings e a2 w2 = (Inl err, a', w') \<longrightarrow>
        initialize e a w = (Inl err, a', w') \<and> rag_chain a' = None \<and> vector_store a' = None) \<and>
     (load_documents e a w = (Inr docs, a1, w1) \<and>
      create_chunks e a1 docs w1 = (Inr chunks, a2, w2) \<and>
      setup_embeddings e a2 w2 = (Inr (), a3, w3) \<and>
      create_vector_store e a3 chunks w3 = (Inl err, a', w') \<longrightarrow>
        initialize e a w = (Inl err, a', w') \<and> rag_chain a' = None \<and> vector_store a' = None) \<and>
     (load_documents e a w = (Inr docs, a1, w1) \<and>
      create_chunks e a1 docs w1 = (Inr chunks, a2, w2) \<and>
      setup_embeddings e a2 w2 = (Inr (), a3, w3) \<and>
      create_vector_store e a3 chunks w3 = (Inr (), a4, w4) \<and>
      setup_retriever e a4 3 w4 = (Inl err, a', w') \<longrightarrow>
        initialize e a w = (Inl err, a', w') \<and> rag_chain a' = None \<and>
        vector_store a' = Some (store_handle a)) \<and>
     (load_documents e a w = (Inr docs, a1, w1) \<and>
      create_chunks e a1 docs w1 = (Inr chunks, a2, w2) \<and>
      setup_embeddings e a2 w2 = (Inr (), a3, w3) \<and>
      create_vector_store e a3 chunks w3 = (Inr (), a4, w4) \<and>
      setup_retriever e a4 3 w4 = (Inr (), a5, w5) \<and>
      setup_llm e a5 w5 = (Inl err, a', w') \<longrightarrow>
        initialize e a w = (Inl err, a', w') \<and> rag_chain a' = None \<and>
        vector_store a' = Some (store_handle a)) \<and>
     (load_documents e a w = (Inr docs, a1, w1) \<and>
      create_chunks e a1 docs w1 = (Inr chunks, a2, w2) \<and>
      setup_embeddings e a2 w2 = (Inr (), a3, w3) \<and>
      create_vector_store e a3 chunks w3 = (Inr (), a4, w4) \<and>
      setup_retriever e a4 3 w4 = (Inr (), a5, w5) \<and>
      setup_llm e a5 w5 = (Inr (), a6, w6) \<and>
      create_rag_chain e a6 w6 = (Inl err, a', w') \<longrightarrow>
        initialize e a w = (Inl err, a', w') \<and> rag_chain a' = None \<and>
        vector_store a' = Some (store_handle a)) \<and>
     (initialize e a w = (Inl err, a', w') \<longrightarrow>
        rag_chain a' = None \<and>
        (vector_store a' = None \<or> vector_store a' = Some (store_handle a)))"
proof (intro conjI impI; (elim conjE)?)
  assume "rag_chain b = None"
  then show "ask_question f b question v =
      (Inl (RuntimeError ''Agent not initialized. Call initialize() first.''), b, v)"
    by (rule ask_question_unset)
next
  assume "vector_store b = None"
  then show "search_documents f b query k v =
      (Inl (RuntimeError ''Vector store not initialized''), b, v)"
    by (rule search_documents_unset)
next
  assume "vector_store b = Some vs" "chroma_len f vs = Inr n" "0 < n"
  then show "fst (search_documents f b query k v) = similarity_search f vs query k"
    by (rule search_documents_set)
next
  assume l: "load_documents e a w = (Inl err, a', w')"
  then show "initialize e a w = (Inl err, a', w')" by (simp add: initialize_def)
  from load_documents_Inl(1)[OF l] assms
  show "rag_chain a' = None" "vector_store a' = None" by simp_all
next
  assume l: "load_documents e a w = (Inr docs, a1, w1)"
    and c: "create_chunks e a1 docs w1 = (Inl err, a', w')"
  then show "initialize e a w = (Inl err, a', w')" by (simp add: initialize_def)
  from load_documents_Inr(1)[OF l] create_chunks_Inl(1)[OF c] assms
  show "rag_chain a' = None" "vector_store a' = None" by simp_all
next
  assume l: "load_documents e a w = (Inr docs, a1, w1)"
    and c: "create_chunks e a1 docs w1 = (Inr chunks, a2, w2)"
    and m: "setup_embeddings e a2 w2 = (Inl err, a', w')"
  then show "initialize e a w = (Inl err, a', w')" by (simp add: initialize_def)
  from load_documents_Inr(1)[OF l] create_chunks_Inr(1)[OF c] setup_embeddings_Inl(1)[OF m] assms
  show "rag_chain a' = None" "vector_store a' = None" by simp_all
next
  assume l: "load_documents e a w = (Inr docs, a1, w1)"
    and c: "create_chunks e a1 docs w1 = (Inr chunks, a2, w2)"
    and m: "setup_embeddings e a2 w2 = (Inr (), a3, w3)"
    and s: "create_vector_store e a3 chunks w3 = (Inl err, a', w')"
  then show "initialize e a w = (Inl err, a', w')" by (simp add: initialize_def)
  have a3: "a3 = a\<lparr>embeddings := Some (HuggingFaceEmbeddings (embedding_model a))\<rparr>"
    using load_documents_Inr(1)[OF l] create_chunks_Inr(1)[OF c] setup_embeddings_Inr(1)[OF m]
    by simp
  then have "embeddings a3 \<noteq> None" by simp
  from create_vector_store_Inl(1)[OF s this] a3 assms
  show "rag_chain a' = None" "vector_store a' = None" by simp_all
next
  assume l: "load_documents e a w = (Inr docs, a1, w1)"
    and c: "create_chunks e a1 docs w1 = (Inr chunks, a2, w2)"
    and m: "setup_embeddings e a2 w2 = (Inr (), a3, w3)"
    and s: "create_vector_store e a3 chunks w3 = (Inr (), a4, w4)"
    and t: "setup_retriever e a4 3 w4 = (Inl err, a', w')"
  then show "initialize e a w = (Inl err, a', w')" by (simp add: initialize_def)
  have a3: "a3 = a\<lparr>embeddings := Some (HuggingFaceEmbeddings (embedding_model a))\<rparr>"
    using load_documents_Inr(1)[OF l] create_chunks_Inr(1)[OF c] setup_embeddings_Inr(1)[OF m]
    by simp
  then have "embeddings a3 \<noteq> None" by simp
  from create_vector_store_Inr(1)[OF s this] a3
  have a4: "a4 = a3\<lparr>vector_store := Some (store_handle a)\<rparr>"
    by (simp add: store_handle_def embeddings_handle_def)
  then have vs: "vector_store a4 = Some (store_handle a)" by simp
  from setup_retriever_Inl(1)[OF t vs] a4 a3 assms
  show "rag_chain a' = None" "vector_store a' = Some (store_handle a)" by simp_all
next
  assume l: "load_documents e a w = (Inr docs, a1, w1)"
    and c: "create_chunks e a1 docs w1 = (Inr chunks, a2, w2)"
    and m: "setup_embeddings e a2 w2 = (Inr (), a3, w3)"
    and s: "create_vector_store e a3 chunks w3 = (Inr (), a4, w4)"
    and t: "setup_retriever e a4 3 w4 = (Inr (), a5, w5)"
    and g: "setup_llm e a5 w5 = (Inl err, a', w')"
  then show "initialize e a w = (Inl err, a', w')" by (simp add: initialize_def)
  have a3: "a3 = a\<lparr>embeddings := Some (HuggingFaceEmbeddings (embedding_model a))\<rparr>"
    using load_documents_Inr(1)[OF l] create_chunks_Inr(1)[OF c] setup_embeddings_Inr(1)[OF m]
    by simp
  then have "embeddings a3 \<noteq> None" by simp
  from create_vector_store_Inr(1)[OF s this] a3
  have a4: "a4 = a3\<lparr>vector_store := Some (store_handle a)\<rparr>"
    by (simp add: store_handle_def embeddings_handle_def)
  then have vs: "vector_store a4 = Some (store_handle a)" by simp
  from setup_retriever_Inr(1)[OF t vs] setup_llm_Inl(1)[OF g] a4 a3 assms
  show "rag_chain a' = None" "vector_store a' = Some (store_handle a)" by simp_all
next
  assume l: "load_documents e a w = (Inr docs, a1, w1)"
    and c: "create_chunks e a1 docs w1 = (Inr chunks, a2, w2)"
    and m: "setup_embeddings e a2 w2 = (Inr (), a3, w3)"
    and s: "create_vector_store e a3 chunks w3 = (Inr (), a4, w4)"
    and t: "setup_retriever e a4 3 w4 = (Inr (), a5, w5)"
    and g: "setup_llm e a5 w5 = (Inr (), a6, w6)"
    and h: "create_rag_chain e a6 w6 = (Inl err, a', w')"
  then show "initialize e a w = (Inl err, a', w')" by (simp add: initialize_def)
  have a3: "a3 = a\<lparr>embeddings := Some (HuggingFaceEmbeddings (embedding_model a))\<rparr>"
    using load_documents_Inr(1)[OF l] create_chunks_Inr(1)[OF c] setup_embeddings_Inr(1)[OF m]
    by simp
  then have "embeddings a3 \<noteq> None" by simp
  from create_vector_store_Inr(1)[OF s this] a3
  have a4: "a4 = a3\<lparr>vector_store := Some (store_handle a)\<rparr>"
    by (simp add: store_handle_def embeddings_handle_def)
  then have vs: "vector_store a4 = Some (store_handle a)" by simp
  from setup_llm_Inr[OF g] obtain key where
    a6: "a6 = a5\<lparr>llm := Some (ChatOpenAI ''gpt-3.5-turbo'' 0 key)\<rparr>" by blast
  from setup_retriever_Inr(1)[OF t vs] a6 create_rag_chain_Inl(1)[OF h] a4 a3 assms
  show "rag_chain a' = None" "vector_store a' = Some (store_handle a)" by simp_all
next
  assume i: "initialize e a w = (Inl err, a', w')"
  from initialize_Inl[OF i] assms
  show "rag_chain a' = None"
    "vector_store a' = None \<or> vector_store a' = Some (store_handle a)" by auto
qed

text \<open>
  Each of the seven steps failing in turn, at concrete inputs: no data directory, the
  splitter, the embedding model, the store, the retriever, the credential and the chain.
  The agent left by the first four has no store; the agent left by the last three holds
  the store, and there \<open>search_documents\<close> returns a result while \<open>ask_question\<close>
  raises.
\<close>

theorem failed_initialize_state_witness:
  "fst (initialize env_nodir agent0 world1) = Inl (FileNotFoundError ''Data directory data not found'') \<and>
   vector_store (fst (snd (initialize env_nodir agent0 world1))) = None \<and>
   rag_chain (fst (snd (initialize env_nodir agent0 world1))) = None \<and>
   fst (initialize env_nosplit agent0 world1) = Inl (ServiceError ''splitter failed'') \<and>
   vector_store (fst (snd (initialize env_nosplit agent0 world1))) = None \<and>
   rag_chain (fst (snd (initialize env_nosplit agent0 world1))) = None \<and>
   fst (initialize env_noembed agent0 world1) = Inl (ServiceError ''model not found'') \<and>
   vector_store (fst (snd (initialize env_noembed agent0 world1))) = None \<and>
   rag_chain (fst (snd (initialize env_noembed agent0 world1))) = None \<and>
   fst (initialize env_nostore agent0 world1) = Inl (ServiceError ''disk full'') \<and>
   vector_store (fst (snd (initialize env_nostore agent0 world1))) = None \<and>
   rag_chain (fst (snd (initialize env_nostore agent0 world1))) = None \<and>
   fst (initialize env_noretriever agent0 world1) = Inl (ServiceError ''bad search type'') \<and>
   vector_store (fst (snd (initialize env_noretriever agent0 world1))) = Some (store_handle agent0) \<and>
   rag_chain (fst (snd (initialize env_noretriever agent0 world1))) = None \<and>
   fst (initialize env_nokey agent0 world1) = Inl (ValueError ''OPENAI_API_KEY not found in environment variables'') \<and>
   vector_store (fst (snd (initialize env_nokey agent0 world1))) = Some (store_handle agent0) \<and>
   rag_chain (fst (snd (initialize env_nokey agent0 world1))) = None \<and>
   fst (initialize env_nochain agent0 world1) = Inl (ServiceError ''not runnable'') \<and>
   vector_store (fst (snd (initialize env_nochain agent0 world1))) = Some (store_handle agent0) \<and>
   rag_chain (fst (snd (initialize env_nochain agent0 world1))) = None \<and>
   search_documents env_ready agent0 ''solar'' 3 world1 =
     (Inl (RuntimeError ''Vector store not initialized''), agent0, world1) \<and>
   ask_question env_ready agent_indexed ''What grew?'' world_nokey =
     (Inl (RuntimeError ''Agent not initialized. Call initialize() first.''),
      agent_indexed, world_nokey) \<and>
   fst (search_documents env_ready agent_indexed ''solar'' 3 world_nokey) = Inr [page_a]"
proof -
  have fresh: "vector_store agent0 = None" "rag_chain agent0 = None" by simp_all
  note th = failed_initialize_state[OF fresh]
  have env_nodir_0: "load_documents env_nodir agent0 world1 =
      (Inl (FileNotFoundError ''Data directory data not found''), agent0, (snd (snd (load_documents env_nodir agent0 world1))))"
    by (simp add: load_documents_def Let_def record_call_def stats_setitem_def heap_setitem_def env_nodir_def env_ready_def)
  from th[where b = agent0 and f = env_ready and question = "[]" and v = world1 and query = "[]" and k = 0 and vs = "store_handle agent0" and n = 0
      and e = env_nodir
      and w = world1
      and err = "FileNotFoundError ''Data directory data not found''"
      and a' = "agent0"
      and w' = "(snd (snd (load_documents env_nodir agent0 world1)))"
      and docs = "[]"
      and chunks = "[]"
      and ?a1.0 = agent0
      and ?w1.0 = world1
      and ?a2.0 = agent0
      and ?w2.0 = world1
      and ?a3.0 = agent0
      and ?w3.0 = world1
      and ?a4.0 = agent0
      and ?w4.0 = world1
      and ?a5.0 = agent0
      and ?w5.0 = world1
      and ?a6.0 = agent0
      and ?w6.0 = world1] env_nodir_0
  have r_env_nodir: "initialize env_nodir agent0 world1 =
      (Inl (FileNotFoundError ''Data directory data not found''), agent0, (snd (snd (load_documents env_nodir agent0 world1)))) \<and>
      rag_chain agent0 = None \<and> vector_store agent0 = None"
    by blast
  have env_nosplit_0: "load_documents env_nosplit agent0 world1 =
      (Inr [page_a, page_b], agent0, (snd (snd (load_documents env_nosplit agent0 world1))))"
    by (simp add: load_documents_def Let_def record_call_def stats_setitem_def heap_setitem_def env_nosplit_def env_ready_def)
  have env_nosplit_1: "create_chunks env_nosplit agent0 [page_a, page_b] (snd (snd (load_documents env_nosplit agent0 world1))) =
      (Inl (ServiceError ''splitter failed''), agent0, (snd (snd (create_chunks env_nosplit agent0 [page_a, page_b] (snd (snd (load_documents env_nosplit agent0 world1)))))))"
    by (simp add: create_chunks_def Let_def record_call_def stats_setitem_def env_nosplit_def env_ready_def)
  from th[where b = agent0 and f = env_ready and question = "[]" and v = world1 and query = "[]" and k = 0 and vs = "store_handle agent0" and n = 0
      and e = env_nosplit
      and w = world1
      and err = "ServiceError ''splitter failed''"
      and a' = "agent0"
      and w' = "(snd (snd (create_chunks env_nosplit agent0 [page_a, page_b] (snd (snd (load_documents env_nosplit agent0 world1))))))"
      and docs = "[page_a, page_b]"
      and chunks = "[]"
      and ?a1.0 = "agent0"
      and ?w1.0 = "(snd (snd (load_documents env_nosplit agent0 world1)))"
      and ?a2.0 = agent0
      and ?w2.0 = world1
      and ?a3.0 = agent0
      and ?w3.0 = world1
      and ?a4.0 = agent0
      and ?w4.0 = world1
      and ?a5.0 = agent0
      and ?w5.0 = world1
      and ?a6.0 = agent0
      and ?w6.0 = world1] env_nosplit_0 env_nosplit_1
  have r_env_nosplit: "initialize env_nosplit agent0 world1 =
      (Inl (ServiceError ''splitter failed''), agent0, (snd (snd (create_chunks env_nosplit agent0 [page_a, page_b] (snd (snd (load_documents env_nosplit agent0 world1))))))) \<and>
      rag_chain agent0 = None \<and> vector_store agent0 = None"
    by blast
  have env_noembed_0: "load_documents env_noembed agent0 world1 =
      (Inr [page_a, page_b], agent0, (snd (snd (load_documents env_noembed agent0 world1))))"
    by (simp add: load_documents_def Let_def record_call_def stats_setitem_def heap_setitem_def env_noembed_def env_ready_def)
  have env_noembed_1: "create_chunks env_noembed agent0 [page_a, page_b] (snd (snd (load_documents env_noembed agent0 world1))) =
      (Inr [page_a, page_b], agent0, (snd (snd (create_chunks env_noembed agent0 [page_a, page_b] (snd (snd (load_documents env_noembed agent0 world1)))))))"
    by (simp add: create_chunks_def Let_def record_call_def stats_setitem_def env_noembed_def env_ready_def)
  have env_noembed_2: "setup_embeddings env_noembed agent0 (snd (snd (create_chunks env_noembed agent0 [page_a, page_b] (snd (snd (load_documents env_noembed agent0 world1)))))) =
      (Inl (ServiceError ''model not found''), agent0, (snd (snd (setup_embeddings env_noembed agent0 (snd (snd (create_chunks env_noembed agent0 [page_a, page_b] (snd (snd (load_documents env_noembed agent0 world1))))))))))"
    by (simp add: setup_embeddings_def Let_def record_call_def embeddings_handle_def env_noembed_def env_ready_def)
  from th[where b = agent0 and f = env_ready and question = "[]" and v = world1 and query = "[]" and k = 0 and vs = "store_handle agent0" and n = 0
      and e = env_noembed
      and w = world1
      and err = "ServiceError ''model not found''"
      and a' = "agent0"
      and w' = "(snd (snd (setup_embeddings env_noembed agent0 (snd (snd (create_chunks env_noembed agent0 [page_a, page_b] (snd (snd (load_documents env_noembed agent0 world1)))))))))"
      and docs = "[page_a, page_b]"
      and chunks = "[page_a, page_b]"
      and ?a1.0 = "agent0"
      and ?w1.0 = "(snd (snd (load_documents env_noembed agent0 world1)))"
      and ?a2.0 = "agent0"
      and ?w2.0 = "(snd (snd (create_chunks env_noembed agent0 [page_a, page_b] (snd (snd (load_documents env_noembed agent0 world1))))))"
      and ?a3.0 = agent0
      and ?w3.0 = world1
      and ?a4.0 = agent0
      and ?w4.0 = world1
      and ?a5.0 = agent0
      and ?w5.0 = world1
      and ?a6.0 = agent0
      and ?w6.0 = world1] env_noembed_0 env_noembed_1 env_noembed_2
  have r_env_noembed: "initialize env_noembed agent0 world1 =
      (Inl (ServiceError ''model not found''), agent0, (snd (snd (setup_embeddings env_noembed agent0 (snd (snd (create_chunks env_noembed agent0 [page_a, page_b] (snd (snd (load_documents env_noembed agent0 world1)))))))))) \<and>
      rag_chain agent0 = None \<and> vector_store agent0 = None"
    by blast
  have env_nostore_0: "load_documents env_nostore agent0 world1 =
      (Inr [page_a, page_b], agent0, (snd (snd (load_documents env_nostore agent0 world1))))"
    by (simp add: load_documents_def Let_def record_call_def stats_setitem_def heap_setitem_def env_nostore_def env_ready_def)
  have env_nostore_1: "create_chunks env_nostore agent0 [page_a, page_b] (snd (snd (load_documents env_nostore agent0 world1))) =
      (Inr [page_a, page_b], agent0, (snd (snd (create_chunks env_nostore agent0 [page_a, page_b] (snd (snd (load_documents env_nostore agent0 world1)))))))"
    by (simp add: create_chunks_def Let_def record_call_def stats_setitem_def env_nostore_def env_ready_def)
  have env_nostore_2: "setup_embeddings env_nostore agent0 (snd (snd (create_chunks env_nostore agent0 [page_a, page_b] (snd (snd (load_documents env_nostore agent0 world1)))))) =
      (Inr (), (agent0\<lparr>embeddings := Some (embeddings_handle agent0)\<rparr>), (snd (snd (setup_embeddings env_nostore agent0 (snd (snd (create_chunks env_nostore agent0 [page_a, page_b] (snd (snd (load_documents env_nostore agent0 world1))))))))))"
    by (simp add: setup_embeddings_def Let_def record_call_def embeddings_handle_def env_nostore_def env_ready_def)
  have env_nostore_3: "create_vector_store env_nostore (agent0\<lparr>embeddings := Some (embeddings_handle agent0)\<rparr>) [page_a, page_b] (snd (snd (setup_embeddings env_nostore agent0 (snd (snd (create_chunks env_nostore agent0 [page_a, page_b] (snd (snd (load_documents env_nostore agent0 world1))))))))) =
      (Inl (ServiceError ''disk full''), (agent0\<lparr>embeddings := Some (embeddings_handle agent0)\<rparr>), (snd (snd (create_vector_store env_nostore (agent0\<lparr>embeddings := Some (embeddings_handle agent0)\<rparr>) [page_a, page_b] (snd (snd (setup_embeddings env_nostore agent0 (snd (snd (create_chunks env_nostore agent0 [page_a, page_b] (snd (snd (load_documents env_nostore agent0 world1)))))))))))))"
    by (simp add: create_vector_store_def store_and_time_def time_time_def Let_def record_call_def stats_setitem_def store_handle_def embeddings_handle_def env_nostore_def env_ready_def)
  from th[where b = agent0 and f = env_ready and question = "[]" and v = world1 and query = "[]" and k = 0 and vs = "store_handle agent0" and n = 0
      and e = env_nostore
      and w = world1
      and err = "ServiceError ''disk full''"
      and a' = "agent0\<lparr>embeddings := Some (embeddings_handle agent0)\<rparr>"
      and w' = "(snd (snd (create_vector_store env_nostore (agent0\<lparr>embeddings := Some (embeddings_handle agent0)\<rparr>) [page_a, page_b] (snd (snd (setup_embeddings env_nostore agent0 (snd (snd (create_chunks env_nostore agent0 [page_a, page_b] (snd (snd (load_documents env_nostore agent0 world1))))))))))))"
      and docs = "[page_a, page_b]"
      and chunks = "[page_a, page_b]"
      and ?a1.0 = "agent0"
      and ?w1.0 = "(snd (snd (load_documents env_nostore agent0 world1)))"
      and ?a2.0 = "agent0"
      and ?w2.0 = "(snd (snd (create_chunks env_nostore agent0 [page_a, page_b] (snd (snd (load_documents env_nostore agent0 world1))))))"
      and ?a3.0 = "agent0\<lparr>embeddings := Some (embeddings_handle agent0)\<rparr>"
      and ?w3.0 = "(snd (snd (setup_embeddings env_nostore agent0 (snd (snd (create_chunks env_nostore agent0 [page_a, page_b] (snd (snd (load_documents env_nostore agent0 world1)))))))))"
      and ?a4.0 = agent0
      and ?w4.0 = world1
      and ?a5.0 = agent0
      and ?w5.0 = world1
      and ?a6.0 = agent0
      and ?w6.0 = world1] env_nostore_0 env_nostore_1 env_nostore_2 env_nostore_3
  have r_env_nostore: "initialize env_nostore agent0 world1 =
      (Inl (ServiceError ''disk full''), (agent0\<lparr>embeddings := Some (embeddings_handle agent0)\<rparr>), (snd (snd (create_vector_store env_nostore (agent0\<lparr>embeddings := Some (embeddings_handle agent0)\<rparr>) [page_a, page_b] (snd (snd (setup_embeddings env_nostore agent0 (snd (snd (create_chunks env_nostore agent0 [page_a, page_b] (snd (snd (load_documents env_nostore agent0 world1))))))))))))) \<and>
      rag_chain (agent0\<lparr>embeddings := Some (embeddings_handle agent0)\<rparr>) = None \<and> vector_store (agent0\<lparr>embeddings := Some (embeddings_handle agent0)\<rparr>) = None"
    by blast
  have env_noretriever_0: "load_documents env_noretriever agent0 world1 =
      (Inr [page_a, page_b], agent0, (snd (snd (load_documents env_noretriever agent0 world1))))"
    by (simp add: load_documents_def Let_def record_call_def stats_setitem_def heap_setitem_def env_noretriever_def env_ready_def)
  have env_noretriever_1: "create_chunks env_noretriever agent0 [page_a, page_b] (snd (snd (load_documents env_noretriever agent0 world1))) =
      (Inr [page_a, page_b], agent0, (snd (snd (create_chunks env_noretriever agent0 [page_a, page_b] (snd (snd (load_documents env_noretriever agent0 world1)))))))"
    by (simp add: create_chunks_def Let_def record_call_def stats_setitem_def env_noretriever_def env_ready_def)
  have env_noretriever_2: "setup_embeddings env_noretriever agent0 (snd (snd (create_chunks env_noretriever agent0 [page_a, page_b] (snd (snd (load_documents env_noretriever agent0 world1)))))) =
      (Inr (), (agent0\<lparr>embeddings := Some (embeddings_handle agent0)\<rparr>), (snd (snd (setup_embeddings env_noretriever agent0 (snd (snd (create_chunks env_noretriever agent0 [page_a, page_b] (snd (snd (load_documents env_noretriever agent0 world1))))))))))"
    by (simp add: setup_embeddings_def Let_def record_call_def embeddings_handle_def env_noretriever_def env_ready_def)
  have env_noretriever_3: "create_vector_store env_noretriever (agent0\<lparr>embeddings := Some (embeddings_handle agent0)\<rparr>) [page_a, page_b] (snd (snd (setup_embeddings env_noretriever agent0 (snd (snd (create_chunks env_noretriever agent0 [page_a, page_b] (snd (snd (load_documents env_noretriever agent0 world1))))))))) =
      (Inr (), (agent0\<lparr>embeddings := Some (embeddings_handle agent0), vector_store := Some (store_handle agent0)\<rparr>), (snd (snd (create_vector_store env_noretriever (agent0\<lparr>embeddings := Some (embeddings_handle agent0)\<rparr>) [page_a, page_b] (snd (snd (setup_embeddings env_noretriever agent0 (snd (snd (create_chunks env_noretriever agent0 [page_a, page_b] (snd (snd (load_documents env_noretriever agent0 world1)))))))))))))"
    by (simp add: create_vector_store_def store_and_time_def time_time_def Let_def record_call_def stats_setitem_def store_handle_def embeddings_handle_def env_noretriever_def env_ready_def)
  have env_noretriever_4: "setup_retriever env_noretriever (agent0\<lparr>embeddings := Some (embeddings_handle agent0), vector_store := Some (store_handle agent0)\<rparr>) 3 (snd (snd (create_vector_store env_noretriever (agent0\<lparr>embeddings := Some (embeddings_handle agent0)\<rparr>) [page_a, page_b] (snd (snd (setup_embeddings env_noretriever agent0 (snd (snd (create_chunks env_noretriever agent0 [page_a, page_b] (snd (snd (load_documents env_noretriever agent0 world1)))))))))))) =
      (Inl (ServiceError ''bad search type''), (agent0\<lparr>embeddings := Some (embeddings_handle agent0), vector_store := Some (store_handle agent0)\<rparr>), (snd (snd (setup_retriever env_noretriever (agent0\<lparr>embeddings := Some (embeddings_handle agent0), vector_store := Some (store_handle agent0)\<rparr>) 3 (snd (snd (create_vector_store env_noretriever (agent0\<lparr>embeddings := Some (embeddings_handle agent0)\<rparr>) [page_a, page_b] (snd (snd (setup_embeddings env_noretriever agent0 (snd (snd (create_chunks env_noretriever agent0 [page_a, page_b] (snd (snd (load_documents env_noretriever agent0 world1))))))))))))))))"
    by (simp add: setup_retriever_def Let_def record_call_def store_handle_def embeddings_handle_def retriever_handle_def agent_indexed_def env_noretriever_def env_ready_def)
  from th[where b = agent0 and f = env_ready and question = "[]" and v = world1 and query = "[]" and k = 0 and vs = "store_handle agent0" and n = 0
      and e = env_noretriever
      and w = world1
      and err = "ServiceError ''bad search type''"
      and a' = "agent0\<lparr>embeddings := Some (embeddings_handle agent0), vector_store := Some (store_handle agent0)\<rparr>"
      and w' = "(snd (snd (setup_retriever env_noretriever (agent0\<lparr>embeddings := Some (embeddings_handle agent0), vector_store := Some (store_handle agent0)\<rparr>) 3 (snd (snd (create_vector_store env_noretriever (agent0\<lparr>embeddings := Some (embeddings_handle agent0)\<rparr>) [page_a, page_b] (snd (snd (setup_embeddings env_noretriever agent0 (snd (snd (create_chunks env_noretriever agent0 [page_a, page_b] (snd (snd (load_documents env_noretriever agent0 world1)))))))))))))))"
      and docs = "[page_a, page_b]"
      and chunks = "[page_a, page_b]"
      and ?a1.0 = "agent0"
      and ?w1.0 = "(snd (snd (load_documents env_noretriever agent0 world1)))"
      and ?a2.0 = "agent0"
      and ?w2.0 = "(snd (snd (create_chunks env_noretriever agent0 [page_a, page_b] (snd (snd (load_documents env_noretriever agent0 world1))))))"
      and ?a3.0 = "agent0\<lparr>embeddings := Some (embeddings_handle agent0)\<rparr>"
      and ?w3.0 = "(snd (snd (setup_embeddings env_noretriever agent0 (snd (snd (create_chunks env_noretriever agent0 [page_a, page_b] (snd (snd (load_documents env_noretriever agent0 world1)))))))))"
      and ?a4.0 = "agent0\<lparr>embeddings := Some (embeddings_handle agent0), vector_store := Some (store_handle agent0)\<rparr>"
      and ?w4.0 = "(snd (snd (create_vector_store env_noretriever (agent0\<lparr>embeddings := Some (embeddings_handle agent0)\<rparr>) [page_a, page_b] (snd (snd (setup_embeddings env_noretriever agent0 (snd (snd (create_chunks env_noretriever agent0 [page_a, page_b] (snd (snd (load_documents env_noretriever agent0 world1))))))))))))"
      and ?a5.0 = agent0
      and ?w5.0 = world1
      and ?a6.0 = agent0
      and ?w6.0 = world1] env_noretriever_0 env_noretriever_1 env_noretriever_2 env_noretriever_3 env_noretriever_4
  have r_env_noretriever: "initialize env_noretriever agent0 world1 =
      (Inl (ServiceError ''bad search type''), (agent0\<lparr>embeddings := Some (embeddings_handle agent0), vector_store := Some (store_handle agent0)\<rparr>), (snd (snd (setup_retriever env_noretriever (agent0\<lparr>embeddings := Some (embeddings_handle agent0), vector_store := Some (store_handle agent0)\<rparr>) 3 (snd (snd (create_vector_store env_noretriever (agent0\<lparr>embeddings := Some (embeddings_handle agent0)\<rparr>) [page_a, page_b] (snd (snd (setup_embeddings env_noretriever agent0 (snd (snd (create_chunks env_noretriever agent0 [page_a, page_b] (snd (snd (load_documents env_noretriever agent0 world1)))))))))))))))) \<and>
      rag_chain (agent0\<lparr>embeddings := Some (embeddings_handle agent0), vector_store := Some (store_handle agent0)\<rparr>) = None \<and> vector_store (agent0\<lparr>embeddings := Some (embeddings_handle agent0), vector_store := Some (store_handle agent0)\<rparr>) = Some (store_handle agent0)"
    by blast
  have env_nokey_0: "load_documents env_nokey agent0 world1 =
      (Inr [page_a, page_b], agent0, (snd (snd (load_documents env_nokey agent0 world1))))"
    by (simp add: load_documents_def Let_def record_call_def stats_setitem_def heap_setitem_def env_nokey_def env_ready_def)
  have env_nokey_1: "create_chunks env_nokey agent0 [page_a, page_b] (snd (snd (load_documents env_nokey agent0 world1))) =
      (Inr [page_a, page_b], agent0, (snd (snd (create_chunks env_nokey agent0 [page_a, page_b] (snd (snd (load_documents env_nokey agent0 world1)))))))"
    by (simp add: create_chunks_def Let_def record_call_def stats_setitem_def env_nokey_def env_ready_def)
  have env_nokey_2: "setup_embeddings env_nokey agent0 (snd (snd (create_chunks env_nokey agent0 [page_a, page_b] (snd (snd (load_documents env_nokey agent0 world1)))))) =
      (Inr (), (agent0\<lparr>embeddings := Some (embeddings_handle agent0)\<rparr>), (snd (snd (setup_embeddings env_nokey agent0 (snd (snd (create_chunks env_nokey agent0 [page_a, page_b] (snd (snd (load_documents env_nokey agent0 world1))))))))))"
    by (simp add: setup_embeddings_def Let_def record_call_def embeddings_handle_def env_nokey_def env_ready_def)
  have env_nokey_3: "create_vector_store env_nokey (agent0\<lparr>embeddings := Some (embeddings_handle agent0)\<rparr>) [page_a, page_b] (snd (snd (setup_embeddings env_nokey agent0 (snd (snd (create_chunks env_nokey agent0 [page_a, page_b] (snd (snd (load_documents env_nokey agent0 world1))))))))) =
      (Inr (), (agent0\<lparr>embeddings := Some (embeddings_handle agent0), vector_store := Some (store_handle agent0)\<rparr>), (snd (snd (create_vector_store env_nokey (agent0\<lparr>embeddings := Some (embeddings_handle agent0)\<rparr>) [page_a, page_b] (snd (snd (setup_embeddings env_nokey agent0 (snd (snd (create_chunks env_nokey agent0 [page_a, page_b] (snd (snd (load_documents env_nokey agent0 world1)))))))))))))"
    by (simp add: create_vector_store_def store_and_time_def time_time_def Let_def record_call_def stats_setitem_def store_handle_def embeddings_handle_def env_nokey_def env_ready_def)
  have env_nokey_4: "setup_retriever env_nokey (agent0\<lparr>embeddings := Some (embeddings_handle agent0), vector_store := Some (store_handle agent0)\<rparr>) 3 (snd (snd (create_vector_store env_nokey (agent0\<lparr>embeddings := Some (embeddings_handle agent0)\<rparr>) [page_a, page_b] (snd (snd (setup_embeddings env_nokey agent0 (snd (snd (create_chunks env_nokey agent0 [page_a, page_b] (snd (snd (load_documents env_nokey agent0 world1)))))))))))) =
      (Inr (), agent_indexed, (snd (snd (setup_retriever env_nokey (agent0\<lparr>embeddings := Some (embeddings_handle agent0), vector_store := Some (store_handle agent0)\<rparr>) 3 (snd (snd (create_vector_store env_nokey (agent0\<lparr>embeddings := Some (embeddings_handle agent0)\<rparr>) [page_a, page_b] (snd (snd (setup_embeddings env_nokey agent0 (snd (snd (create_chunks env_nokey agent0 [page_a, page_b] (snd (snd (load_documents env_nokey agent0 world1))))))))))))))))"
    by (simp add: setup_retriever_def Let_def record_call_def store_handle_def embeddings_handle_def retriever_handle_def agent_indexed_def env_nokey_def env_ready_def)
  have env_nokey_5: "setup_llm env_nokey agent_indexed (snd (snd (setup_retriever env_nokey (agent0\<lparr>embeddings := Some (embeddings_handle agent0), vector_store := Some (store_handle agent0)\<rparr>) 3 (snd (snd (create_vector_store env_nokey (agent0\<lparr>embeddings := Some (embeddings_handle agent0)\<rparr>) [page_a, page_b] (snd (snd (setup_embeddings env_nokey agent0 (snd (snd (create_chunks env_nokey agent0 [page_a, page_b] (snd (snd (load_documents env_nokey agent0 world1))))))))))))))) =
      (Inl (ValueError ''OPENAI_API_KEY not found in environment variables''), agent_indexed, (snd (snd (setup_llm env_nokey agent_indexed (snd (snd (setup_retriever env_nokey (agent0\<lparr>embeddings := Some (embeddings_handle agent0), vector_store := Some (store_handle agent0)\<rparr>) 3 (snd (snd (create_vector_store env_nokey (agent0\<lparr>embeddings := Some (embeddings_handle agent0)\<rparr>) [page_a, page_b] (snd (snd (setup_embeddings env_nokey agent0 (snd (snd (create_chunks env_nokey agent0 [page_a, page_b] (snd (snd (load_documents env_nokey agent0 world1)))))))))))))))))))"
    by (simp add: setup_llm_def Let_def record_call_def agent_indexed_def env_nokey_def env_ready_def)
  from th[where b = agent0 and f = env_ready and question = "[]" and v = world1 and query = "[]" and k = 0 and vs = "store_handle agent0" and n = 0
      and e = env_nokey
      and w = world1
      and err = "ValueError ''OPENAI_API_KEY not found in environment variables''"
      and a' = "agent_indexed"
      and w' = "(snd (snd (setup_llm env_nokey agent_indexed (snd (snd (setup_retriever env_nokey (agent0\<lparr>embeddings := Some (embeddings_handle agent0), vector_store := Some (store_handle agent0)\<rparr>) 3 (snd (snd (create_vector_store env_nokey (agent0\<lparr>embeddings := Some (embeddings_handle agent0)\<rparr>) [page_a, page_b] (snd (snd (setup_embeddings env_nokey agent0 (snd (snd (create_chunks env_nokey agent0 [page_a, page_b] (snd (snd (load_documents env_nokey agent0 world1))))))))))))))))))"
      and docs = "[page_a, page_b]"
      and chunks = "[page_a, page_b]"
      and ?a1.0 = "agent0"
      and ?w1.0 = "(snd (snd (load_documents env_nokey agent0 world1)))"
      and ?a2.0 = "agent0"
      and ?w2.0 = "(snd (snd (create_chunks env_nokey agent0 [page_a, page_b] (snd (snd (load_documents env_nokey agent0 world1))))))"
      and ?a3.0 = "agent0\<lparr>embeddings := Some (embeddings_handle agent0)\<rparr>"
      and ?w3.0 = "(snd (snd (setup_embeddings env_nokey agent0 (snd (snd (create_chunks env_nokey agent0 [page_a, page_b] (snd (snd (load_documents env_nokey agent0 world1)))))))))"
      and ?a4.0 = "agent0\<lparr>embeddings := Some (embeddings_handle agent0), vector_store := Some (store_handle agent0)\<rparr>"
      and ?w4.0 = "(snd (snd (create_vector_store env_nokey (agent0\<lparr>embeddings := Some (embeddings_handle agent0)\<rparr>) [page_a, page_b] (snd (snd (setup_embeddings env_nokey agent0 (snd (snd (create_chunks env_nokey agent0 [page_a, page_b] (snd (snd (load_documents env_nokey agent0 world1))))))))))))"
      and ?a5.0 = "agent_indexed"
      and ?w5.0 = "(snd (snd (setup_retriever env_nokey (agent0\<lparr>embeddings := Some (embeddings_handle agent0), vector_store := Some (store_handle agent0)\<rparr>) 3 (snd (snd (create_vector_store env_nokey (agent0\<lparr>embeddings := Some (embeddings_handle agent0)\<rparr>) [page_a, page_b] (snd (snd (setup_embeddings env_nokey agent0 (snd (snd (create_chunks env_nokey agent0 [page_a, page_b] (snd (snd (load_documents env_nokey agent0 world1)))))))))))))))"
      and ?a6.0 = agent0
      and ?w6.0 = world1] env_nokey_0 env_nokey_1 env_nokey_2 env_nokey_3 env_nokey_4 env_nokey_5
  have r_env_nokey: "initialize env_nokey agent0 world1 =
      (Inl (ValueError ''OPENAI_API_KEY not found in environment variables''), agent_indexed, (snd (snd (setup_llm env_nokey agent_indexed (snd (snd (setup_retriever env_nokey (agent0\<lparr>embeddings := Some (embeddings_handle agent0), vector_store := Some (store_handle agent0)\<rparr>) 3 (snd (snd (create_vector_store env_nokey (agent0\<lparr>embeddings := Some (embeddings_handle agent0)\<rparr>) [page_a, page_b] (snd (snd (setup_embeddings env_nokey agent0 (snd (snd (create_chunks env_nokey agent0 [page_a, page_b] (snd (snd (load_documents env_nokey agent0 world1))))))))))))))))))) \<and>
      rag_chain agent_indexed = None \<and> vector_store agent_indexed = Some (store_handle agent0)"
    by blast
  have env_nochain_0: "load_documents env_nochain agent0 world1 =
      (Inr [page_a, page_b], agent0, (snd (snd (load_documents env_nochain agent0 world1))))"
    by (simp add: load_documents_def Let_def record_call_def stats_setitem_def heap_setitem_def env_nochain_def env_ready_def)
  have env_nochain_1: "create_chunks env_nochain agent0 [page_a, page_b] (snd (snd (load_documents env_nochain agent0 world1))) =
      (Inr [page_a, page_b], agent0, (snd (snd (create_chunks env_nochain agent0 [page_a, page_b] (snd (snd (load_documents env_nochain agent0 world1)))))))"
    by (simp add: create_chunks_def Let_def record_call_def stats_setitem_def env_nochain_def env_ready_def)
  have env_nochain_2: "setup_embeddings env_nochain agent0 (snd (snd (create_chunks env_nochain agent0 [page_a, page_b] (snd (snd (load_documents env_nochain agent0 world1)))))) =
      (Inr (), (agent0\<lparr>embeddings := Some (embeddings_handle agent0)\<rparr>), (snd (snd (setup_embeddings env_nochain agent0 (snd (snd (create_chunks env_nochain agent0 [page_a, page_b] (snd (snd (load_documents env_nochain agent0 world1))))))))))"
    by (simp add: setup_embeddings_def Let_def record_call_def embeddings_handle_def env_nochain_def env_ready_def)
  have env_nochain_3: "create_vector_store env_nochain (agent0\<lparr>embeddings := Some (embeddings_handle agent0)\<rparr>) [page_a, page_b] (snd (snd (setup_embeddings env_nochain agent0 (snd (snd (create_chunks env_nochain agent0 [page_a, page_b] (snd (snd (load_documents env_nochain agent0 world1))))))))) =
      (Inr (), (agent0\<lparr>embeddings := Some (embeddings_handle agent0), vector_store := Some (store_handle agent0)\<rparr>), (snd (snd (create_vector_store env_nochain (agent0\<lparr>embeddings := Some (embeddings_handle agent0)\<rparr>) [page_a, page_b] (snd (snd (setup_embeddings env_nochain agent0 (snd (snd (create_chunks env_nochain agent0 [page_a, page_b] (snd (snd (load_documents env_nochain agent0 world1)))))))))))))"
    by (simp add: create_vector_store_def store_and_time_def time_time_def Let_def record_call_def stats_setitem_def store_handle_def embeddings_handle_def env_nochain_def env_ready_def)
  have env_nochain_4: "setup_retriever env_nochain (agent0\<lparr>embeddings := Some (embeddings_handle agent0), vector_store := Some (store_handle agent0)\<rparr>) 3 (snd (snd (create_vector_store env_nochain (agent0\<lparr>embeddings := Some (embeddings_handle agent0)\<rparr>) [page_a, page_b] (snd (snd (setup_embeddings env_nochain agent0 (snd (snd (create_chunks env_nochain agent0 [page_a, page_b] (snd (snd (load_documents env_nochain agent0 world1)))))))))))) =
      (Inr (), agent_indexed, (snd (snd (setup_retriever env_nochain (agent0\<lparr>embeddings := Some (embeddings_handle agent0), vector_store := Some (store_handle agent0)\<rparr>) 3 (snd (snd (create_vector_store env_nochain (agent0\<lparr>embeddings := Some (embeddings_handle agent0)\<rparr>) [page_a, page_b] (snd (snd (setup_embeddings env_nochain agent0 (snd (snd (create_chunks env_nochain agent0 [page_a, page_b] (snd (snd (load_documents env_nochain agent0 world1))))))))))))))))"
    by (simp add: setup_retriever_def Let_def record_call_def store_handle_def embeddings_handle_def retriever_handle_def agent_indexed_def env_nochain_def env_ready_def)
  have env_nochain_5: "setup_llm env_nochain agent_indexed (snd (snd (setup_retriever env_nochain (agent0\<lparr>embeddings := Some (embeddings_handle agent0), vector_store := Some (store_handle agent0)\<rparr>) 3 (snd (snd (create_vector_store env_nochain (agent0\<lparr>embeddings := Some (embeddings_handle agent0)\<rparr>) [page_a, page_b] (snd (snd (setup_embeddings env_nochain agent0 (snd (snd (create_chunks env_nochain agent0 [page_a, page_b] (snd (snd (load_documents env_nochain agent0 world1))))))))))))))) =
      (Inr (), (agent_indexed\<lparr>llm := Some (ChatOpenAI ''gpt-3.5-turbo'' 0 ''sk-test'')\<rparr>), (snd (snd (setup_llm env_nochain agent_indexed (snd (snd (setup_retriever env_nochain (agent0\<lparr>embeddings := Some (embeddings_handle agent0), vector_store := Some (store_handle agent0)\<rparr>) 3 (snd (snd (create_vector_store env_nochain (agent0\<lparr>embeddings := Some (embeddings_handle agent0)\<rparr>) [page_a, page_b] (snd (snd (setup_embeddings env_nochain agent0 (snd (snd (create_chunks env_nochain agent0 [page_a, page_b] (snd (snd (load_documents env_nochain agent0 world1)))))))))))))))))))"
    by (simp add: setup_llm_def Let_def record_call_def agent_indexed_def env_nochain_def env_ready_def)
  have env_nochain_6: "create_rag_chain env_nochain (agent_indexed\<lparr>llm := Some (ChatOpenAI ''gpt-3.5-turbo'' 0 ''sk-test'')\<rparr>) (snd (snd (setup_llm env_nochain agent_indexed (snd (snd (setup_retriever env_nochain (agent0\<lparr>embeddings := Some (embeddings_handle agent0), vector_store := Some (store_handle agent0)\<rparr>) 3 (snd (snd (create_vector_store env_nochain (agent0\<lparr>embeddings := Some (embeddings_handle agent0)\<rparr>) [page_a, page_b] (snd (snd (setup_embeddings env_nochain agent0 (snd (snd (create_chunks env_nochain agent0 [page_a, page_b] (snd (snd (load_documents env_nochain agent0 world1)))))))))))))))))) =
      (Inl (ServiceError ''not runnable''), (agent_indexed\<lparr>llm := Some (ChatOpenAI ''gpt-3.5-turbo'' 0 ''sk-test'')\<rparr>), (snd (snd (create_rag_chain env_nochain (agent_indexed\<lparr>llm := Some (ChatOpenAI ''gpt-3.5-turbo'' 0 ''sk-test'')\<rparr>) (snd (snd (setup_llm env_nochain agent_indexed (snd (snd (setup_retriever env_nochain (agent0\<lparr>embeddings := Some (embeddings_handle agent0), vector_store := Some (store_handle agent0)\<rparr>) 3 (snd (snd (create_vector_store env_nochain (agent0\<lparr>embeddings := Some (embeddings_handle agent0)\<rparr>) [page_a, page_b] (snd (snd (setup_embeddings env_nochain agent0 (snd (snd (create_chunks env_nochain agent0 [page_a, page_b] (snd (snd (load_documents env_nochain agent0 world1))))))))))))))))))))))"
    by (simp add: create_rag_chain_def Let_def record_call_def agent_indexed_def env_nochain_def env_ready_def)
  from th[where b = agent0 and f = env_ready and question = "[]" and v = world1 and query = "[]" and k = 0 and vs = "store_handle agent0" and n = 0
      and e = env_nochain
      and w = world1
      and err = "ServiceError ''not runnable''"
      and a' = "agent_indexed\<lparr>llm := Some (ChatOpenAI ''gpt-3.5-turbo'' 0 ''sk-test'')\<rparr>"
      and w' = "(snd (snd (create_rag_chain env_nochain (agent_indexed\<lparr>llm := Some (ChatOpenAI ''gpt-3.5-turbo'' 0 ''sk-test'')\<rparr>) (snd (snd (setup_llm env_nochain agent_indexed (snd (snd (setup_retriever env_nochain (agent0\<lparr>embeddings := Some (embeddings_handle agent0), vector_store := Some (store_handle agent0)\<rparr>) 3 (snd (snd (create_vector_store env_nochain (agent0\<lparr>embeddings := Some (embeddings_handle agent0)\<rparr>) [page_a, page_b] (snd (snd (setup_embeddings env_nochain agent0 (snd (snd (create_chunks env_nochain agent0 [page_a, page_b] (snd (snd (load_documents env_nochain agent0 world1)))))))))))))))))))))"
      and docs = "[page_a, page_b]"
      and chunks = "[page_a, page_b]"
      and ?a1.0 = "agent0"
      and ?w1.0 = "(snd (snd (load_documents env_nochain agent0 world1)))"
      and ?a2.0 = "agent0"
      and ?w2.0 = "(snd (snd (create_chunks env_nochain agent0 [page_a, page_b] (snd (snd (load_documents env_nochain agent0 world1))))))"
      and ?a3.0 = "agent0\<lparr>embeddings := Some (embeddings_handle agent0)\<rparr>"
      and ?w3.0 = "(snd (snd (setup_embeddings env_nochain agent0 (snd (snd (create_chunks env_nochain agent0 [page_a, page_b] (snd (snd (load_documents env_nochain agent0 world1)))))))))"
      and ?a4.0 = "agent0\<lparr>embeddings := Some (embeddings_handle agent0), vector_store := Some (store_handle agent0)\<rparr>"
      and ?w4.0 = "(snd (snd (create_vector_store env_nochain (agent0\<lparr>embeddings := Some (embeddings_handle agent0)\<rparr>) [page_a, page_b] (snd (snd (setup_embeddings env_nochain agent0 (snd (snd (create_chunks env_nochain agent0 [page_a, page_b] (snd (snd (load_documents env_nochain agent0 world1))))))))))))"
      and ?a5.0 = "agent_indexed"
      and ?w5.0 = "(snd (snd (setup_retriever env_nochain (agent0\<lparr>embeddings := Some (embeddings_handle agent0), vector_store := Some (store_handle agent0)\<rparr>) 3 (snd (snd (create_vector_store env_nochain (agent0\<lparr>embeddings := Some (embeddings_handle agent0)\<rparr>) [page_a, page_b] (snd (snd (setup_embeddings env_nochain agent0 (snd (snd (create_chunks env_nochain agent0 [page_a, page_b] (snd (snd (load_documents env_nochain agent0 world1)))))))))))))))"
      and ?a6.0 = "agent_indexed\<lparr>llm := Some (ChatOpenAI ''gpt-3.5-turbo'' 0 ''sk-test'')\<rparr>"
      and ?w6.0 = "(snd (snd (setup_llm env_nochain agent_indexed (snd (snd (setup_retriever env_nochain (agent0\<lparr>embeddings := Some (embeddings_handle agent0), vector_store := Some (store_handle agent0)\<rparr>) 3 (snd (snd (create_vector_store env_nochain (agent0\<lparr>embeddings := Some (embeddings_handle agent0)\<rparr>) [page_a, page_b] (snd (snd (setup_embeddings env_nochain agent0 (snd (snd (create_chunks env_nochain agent0 [page_a, page_b] (snd (snd (load_documents env_nochain agent0 world1))))))))))))))))))"] env_nochain_0 env_nochain_1 env_nochain_2 env_nochain_3 env_nochain_4 env_nochain_5 env_nochain_6
  have r_env_nochain: "initialize env_nochain agent0 world1 =
      (Inl (ServiceError ''not runnable''), (agent_indexed\<lparr>llm := Some (ChatOpenAI ''gpt-3.5-turbo'' 0 ''sk-test'')\<rparr>), (snd (snd (create_rag_chain env_nochain (agent_indexed\<lparr>llm := Some (ChatOpenAI ''gpt-3.5-turbo'' 0 ''sk-test'')\<rparr>) (snd (snd (setup_llm env_nochain agent_indexed (snd (snd (setup_retriever env_nochain (agent0\<lparr>embeddings := Some (embeddings_handle agent0), vector_store := Some (store_handle agent0)\<rparr>) 3 (snd (snd (create_vector_store env_nochain (agent0\<lparr>embeddings := Some (embeddings_handle agent0)\<rparr>) [page_a, page_b] (snd (snd (setup_embeddings env_nochain agent0 (snd (snd (create_chunks env_nochain agent0 [page_a, page_b] (snd (snd (load_documents env_nochain agent0 world1)))))))))))))))))))))) \<and>
      rag_chain (agent_indexed\<lparr>llm := Some (ChatOpenAI ''gpt-3.5-turbo'' 0 ''sk-test'')\<rparr>) = None \<and> vector_store (agent_indexed\<lparr>llm := Some (ChatOpenAI ''gpt-3.5-turbo'' 0 ''sk-test'')\<rparr>) = Some (store_handle agent0)"
    by blast
  from th[where b = agent0 and f = env_ready and query = "''solar''" and k = 3 and v = world1
        and question = "[]" and vs = "store_handle agent0" and n = 0
        and e = env_ready and w = world1 and err = "ValueError []" and a' = agent0 and w' = world1 and docs = "[]" and chunks = "[]" and ?a1.0 = agent0 and ?w1.0 = world1 and ?a2.0 = agent0 and ?w2.0 = world1 and ?a3.0 = agent0 and ?w3.0 = world1 and ?a4.0 = agent0 and ?w4.0 = world1 and ?a5.0 = agent0 and ?w5.0 = world1 and ?a6.0 = agent0 and ?w6.0 = world1] fresh
  have s0: "search_documents env_ready agent0 ''solar'' 3 world1 =
     (Inl (RuntimeError ''Vector store not initialized''), agent0, world1)"
    by blast
  have unset: "rag_chain agent_indexed = None" by (simp add: agent_indexed_def)
  from th[where b = agent_indexed and f = env_ready and question = "''What grew?''"
        and v = world_nokey and query = "[]" and k = 0 and vs = "store_handle agent0" and n = 0
        and e = env_ready and w = world1 and err = "ValueError []" and a' = agent0 and w' = world1 and docs = "[]" and chunks = "[]" and ?a1.0 = agent0 and ?w1.0 = world1 and ?a2.0 = agent0 and ?w2.0 = world1 and ?a3.0 = agent0 and ?w3.0 = world1 and ?a4.0 = agent0 and ?w4.0 = world1 and ?a5.0 = agent0 and ?w5.0 = world1 and ?a6.0 = agent0 and ?w6.0 = world1] unset
  have a1: "ask_question env_ready agent_indexed ''What grew?'' world_nokey =
     (Inl (RuntimeError ''Agent not initialized. Call initialize() first.''),
      agent_indexed, world_nokey)"
    by blast
  have held: "vector_store agent_indexed = Some (store_handle agent0)"
    "chroma_len env_ready (store_handle agent0) = Inr 2" "(0::nat) < 2"
    by (simp_all add: agent_indexed_def env_ready_def)
  from th[where b = agent_indexed and f = env_ready and query = "''solar''" and k = 3
        and v = world_nokey and vs = "store_handle agent0" and n = 2 and question = "[]"
        and e = env_ready and w = world1 and err = "ValueError []" and a' = agent0 and w' = world1 and docs = "[]" and chunks = "[]" and ?a1.0 = agent0 and ?w1.0 = world1 and ?a2.0 = agent0 and ?w2.0 = world1 and ?a3.0 = agent0 and ?w3.0 = world1 and ?a4.0 = agent0 and ?w4.0 = world1 and ?a5.0 = agent0 and ?w5.0 = world1 and ?a6.0 = agent0 and ?w6.0 = world1] held
  have "fst (search_documents env_ready agent_indexed ''solar'' 3 world_nokey) =
     similarity_search env_ready (store_handle agent0) ''solar'' 3"
    by blast
  then have s1: "fst (search_documents env_ready agent_indexed ''solar'' 3 world_nokey) =
     Inr [page_a]"
    by (simp add: env_ready_def)
  from r_env_nodir r_env_nosplit r_env_noembed r_env_nostore r_env_noretriever r_env_nokey r_env_nochain s0 a1 s1
  show ?thesis by simp
qed

text \<open>
  Claim C1 as stated fails: with a loadable PDF and no credential, \<open>initialize\<close> fails
  and \<open>search_documents\<close> on the agent it leaves returns a result.
\<close>

theorem failed_initialize_search_counterexample:
  "fst (initialize env_nokey agent0 world1) =
     Inl (ValueError ''OPENAI_API_KEY not found in environment variables'') \<and>
   fst (search_documents env_nokey (fst (snd (initialize env_nokey agent0 world1))) ''solar'' 3
          (snd (snd (initialize env_nokey agent0 world1)))) = Inr [page_a]"
  unfolding initialize_nokey_run
  by (simp add: search_documents_def Let_def agent_indexed_def env_nokey_def env_ready_def)

text \<open>
  Claim C7, as amended. On an agent as the constructor leaves it, \<open>ask_question\<close> and
  \<open>search_documents\<close> raise \<open>RuntimeError\<close>. After a failed \<open>initialize\<close> on an agent
  that held no chain before, in particular on such a new agent, \<open>ask_question\<close> still
  raises \<open>RuntimeError\<close>. After a successful \<open>initialize\<close>, \<open>ask_question\<close> returns a
  string, the agent holds the store of its storage location, and \<open>search_documents\<close> on
  a store that holds documents returns what the similarity search of the store returns:
  it succeeds whenever that search does.
\<close>

theorem ask_search_guards:
  "(fst (ask_question e2 (fst (init_agent dir path model csize coverlap w0)) question w2) =
      Inl (RuntimeError ''Agent not initialized. Call initialize() first.'') \<and>
    fst (search_documents e2 (fst (init_agent dir path model csize coverlap w0)) query k w2) =
      Inl (RuntimeError ''Vector store not initialized'')) \<and>
   (initialize e a w = (Inl err, a', w') \<and> rag_chain a = None \<longrightarrow>
      fst (ask_question e2 a' question w2) =
        Inl (RuntimeError ''Agent not initialized. Call initialize() first.'')) \<and>
   (initialize e a w = (Inr u, a', w') \<longrightarrow>
      (\<exists>answer. fst (ask_question e2 a' question w2) = Inr answer) \<and>
      vector_store a' = Some (store_handle a) \<and>
      (chroma_len e2 (store_handle a) = Inr n \<and> 0 < n \<longrightarrow>
         fst (search_documents e2 a' query k w2) =
           similarity_search e2 (store_handle a) query k))"
proof (intro conjI impI)
  show "fst (ask_question e2 (fst (init_agent dir path model csize coverlap w0)) question w2) =
      Inl (RuntimeError ''Agent not initialized. Call initialize() first.'')"
    by (simp add: ask_question_def init_agent_def)
  show "fst (search_documents e2 (fst (init_agent dir path model csize coverlap w0)) query k w2) =
      Inl (RuntimeError ''Vector store not initialized'')"
    by (simp add: search_documents_def init_agent_def)
next
  assume "initialize e a w = (Inl err, a', w') \<and> rag_chain a = None"
  with initialize_Inl[of e a w err a' w'] have "rag_chain a' = None" by simp
  then show "fst (ask_question e2 a' question w2) =
        Inl (RuntimeError ''Agent not initialized. Call initialize() first.'')"
    by (simp add: ask_question_unset)
next
  assume ok: "initialize e a w = (Inr u, a', w')"
  from initialize_Inr[OF ok] obtain chain where
    set: "rag_chain a' = Some chain" "vector_store a' = Some (store_handle a)" by auto
  from set(1) show "\<exists>answer. fst (ask_question e2 a' question w2) = Inr answer"
    by (simp add: ask_question_def Let_def split: sum.splits)
  from set(2) show "vector_store a' = Some (store_handle a)" .
  show "fst (search_documents e2 a' query k w2) = similarity_search e2 (store_handle a) query k"
    if "chroma_len e2 (store_handle a) = Inr n \<and> 0 < n"
    using that search_documents_set[OF set(2)] by blast
qed

text \<open>The failed and the complete run of the concrete world.\<close>

theorem ask_search_guards_witness:
  "fst (ask_question env_ready agent_indexed ''What grew?'' world_nokey) =
     Inl (RuntimeError ''Agent not initialized. Call initialize() first.'') \<and>
   fst (ask_question env_ready agent_ready ''What grew?'' world_ready) =
     Inr ''Solar capacity doubled.'' \<and>
   fst (search_documents env_ready agent_ready ''solar'' 3 world_ready) = Inr [page_a]"
proof -
  have fresh: "rag_chain agent0 = None" by simp
  have held: "chroma_len env_ready (store_handle agent0) = Inr 2" "(0::nat) < 2"
    by (simp_all add: env_ready_def)
  from ask_search_guards[where ?e2.0 = env_ready and question = "''What grew?''" and ?w2.0 = world_nokey
         and e = env_nokey and a = agent0 and w = world1
         and err = "ValueError ''OPENAI_API_KEY not found in environment variables''"
         and a' = agent_indexed and w' = world_nokey]
    initialize_nokey_run fresh
  have 1: "fst (ask_question env_ready agent_indexed ''What grew?'' world_nokey) =
     Inl (RuntimeError ''Agent not initialized. Call initialize() first.'')"
    by blast
  from ask_search_guards[where ?e2.0 = env_ready and question = "''What grew?''" and ?w2.0 = world_ready
         and query = "''solar''" and k = 3 and e = env_ready and a = agent0 and w = world1
         and a' = agent_ready and w' = world_ready and n = 2]
    initialize_ready_run held
  have 2: "\<exists>answer. fst (ask_question env_ready agent_ready ''What grew?'' world_ready) = Inr answer"
    and 3: "fst (search_documents env_ready agent_ready ''solar'' 3 world_ready) =
        similarity_search env_ready (store_handle agent0) ''solar'' 3"
    by blast+
  from 2 have "fst (ask_question env_ready agent_ready ''What grew?'' world_ready) =
     Inr ''Solar capacity doubled.''"
    by (auto simp: ask_question_def Let_def env_ready_def agent_ready_def split: sum.splits)
  with 1 3 show ?thesis by (simp add: env_ready_def)
qed

text \<open>
  Claim C7 as stated fails for an agent whose \<open>initialize\<close> has run without success:
  with an empty credential next to a persisted index, \<open>initialize\<close> fails and
  \<open>search_documents\<close> afterwards returns a result.
\<close>

theorem search_after_failed_initialize_counterexample:
  "fst (initialize env_emptykey_reuse agent0 world1) =
     Inl (ValueError ''OPENAI_API_KEY not found in environment variables'') \<and>
   fst (search_documents env_emptykey_reuse
          (fst (snd (initialize env_emptykey_reuse agent0 world1))) ''wind'' 1
          (snd (snd (initialize env_emptykey_reuse agent0 world1)))) = Inr [page_a]"
  unfolding initialize_emptykey_reuse_run
  by (simp add: search_documents_def Let_def agent_indexed_def env_emptykey_reuse_def
        env_ready_def)

section \<open>The statistics\<close>

lemma ask_question_frame:
  "ask_question e a q w = (r, a', w') \<Longrightarrow> a' = a \<and> heap w' = heap w"
  by (auto simp: ask_question_def record_call_def Let_def split: option.splits sum.splits)

lemma search_documents_frame:
  "search_documents e a q k w = (r, a', w') \<Longrightarrow> a' = a \<and> heap w' = heap w"
  by (auto simp: search_documents_def record_call_def Let_def
        split: option.splits sum.splits if_splits)

lemma client_step_inv:
  assumes "client_inv (a, hs, w)" and "client_step e op (a, hs, w) = (a', hs', w')"
  shows "a' = a \<and> client_inv (a', hs', w') \<and> heap w' ! stats a = heap w ! stats a"
proof (cases op)
  case (Ask question)
  with assms(2) obtain r where "ask_question e a question w = (r, a', w')" "hs' = hs"
    by (auto split: prod.splits)
  with ask_question_frame[OF this(1)] assms(1) show ?thesis by (simp add: client_inv_def)
next
  case (Search query k)
  with assms(2) obtain r where "search_documents e a query k w = (r, a', w')" "hs' = hs"
    by (auto split: prod.splits)
  with search_documents_frame[OF this(1)] assms(1) show ?thesis by (simp add: client_inv_def)
next
  case GetStats
  with assms(2) have "a' = a" "hs' = hs @ [length (heap w)]"
    "w' = w\<lparr>heap := heap w @ [heap w ! stats a]\<rparr>"
    by (auto simp: get_stats_def)
  with assms(1) show ?thesis
    by (auto simp: client_inv_def nth_append list_all_iff)
next
  case (Mutate i d)
  show ?thesis
  proof (cases "i < length hs")
    case True
    with Mutate assms(2) have eq: "a' = a" "hs' = hs" "w' = w\<lparr>heap := (heap w)[hs ! i := d]\<rparr>"
      by auto
    from True assms(1) have "hs ! i \<noteq> stats a"
      by (auto simp: client_inv_def list_all_length)
    with eq assms(1) show ?thesis by (simp add: client_inv_def)
  next
    case False
    with Mutate assms show ?thesis by simp
  qed
qed

lemma client_run_inv:
  "client_inv (a, hs, w) \<Longrightarrow> client_run e ops (a, hs, w) = (a', hs', w') \<Longrightarrow>
     a' = a \<and> client_inv (a', hs', w') \<and> heap w' ! stats a = heap w ! stats a"
proof (induction ops arbitrary: hs w)
  case Nil
  then show ?case by simp
next
  case (Cons op ops)
  obtain a1 hs1 w1 where step: "client_step e op (a, hs, w) = (a1, hs1, w1)"
    by (cases "client_step e op (a, hs, w)") auto
  from client_step_inv[OF Cons.prems(1) step]
  have s: "a1 = a" "client_inv (a1, hs1, w1)" "heap w1 ! stats a = heap w ! stats a" by blast+
  from s have inv1: "client_inv (a, hs1, w1)" by simp
  from Cons.prems(2) step s(1) have "client_run e ops (a, hs1, w1) = (a', hs', w')" by simp
  from Cons.IH[OF inv1 this] s(3) show ?case by auto
qed

text \<open>
  Claim C9. Take an agent whose \<open>stats\<close> dictionary is allocated (every agent made by
  the constructor is, and dictionaries are never freed) and any sequence of
  \<open>ask_question\<close>, \<open>search_documents\<close> and \<open>get_stats\<close> calls, interleaved with arbitrary
  in-place changes of the mappings that \<open>get_stats\<close> returned. The agent and its
  \<open>stats\<close> dictionary are as before, and a further \<open>get_stats\<close> returns a new mapping,
  different from every mapping handed out before, with the items the statistics had at
  the start.
\<close>

theorem stats_unchanged_by_clients:
  assumes "stats a < length (heap w)"
    and "client_run e ops (a, [], w) = (a', hs, w')"
  shows "a' = a \<and> heap w' ! stats a = heap w ! stats a \<and>
         (\<forall>k. stats_getitem a' k w' = stats_getitem a k w) \<and>
         (\<exists>h w''. get_stats a' w' = (Inr h, a', w'') \<and> heap w'' ! h = heap w ! stats a \<and>
            h \<noteq> stats a \<and> h \<notin> set hs)"
proof -
  from assms(1) have "client_inv (a, [], w)" by (simp add: client_inv_def)
  from client_run_inv[OF this assms(2)]
  have r: "a' = a" "client_inv (a, hs, w')" "heap w' ! stats a = heap w ! stats a" by blast+
  from r(2) have "stats a < length (heap w')" "length (heap w') \<notin> set hs"
    by (auto simp: client_inv_def list_all_iff)
  with r show ?thesis
    by (auto simp: stats_getitem_def get_stats_def nth_append)
qed

text \<open>
  A run on the initialized agent of the concrete world: the client overwrites the first
  copy, asks, searches and reads the statistics again.
\<close>

theorem stats_unchanged_by_clients_witness:
  "heap (snd (snd (client_run env_ready
      [GetStats, Mutate 0 [(''documents_loaded'', PyInt 99)], Ask ''What grew?'',
       Search ''solar'' 3, GetStats]
      (agent_ready, [], world_ready)))) =
   [[(''documents_loaded'', PyInt 2), (''chunks_created'', PyInt 2),
     (''processing_time'', PyFloat 1)],
    [(''documents_loaded'', PyInt 99)],
    [(''documents_loaded'', PyInt 2), (''chunks_created'', PyInt 2),
     (''processing_time'', PyFloat 1)]]"
proof -
  let ?ops = "[GetStats, Mutate 0 [(''documents_loaded'', PyInt 99)], Ask ''What grew?'',
       Search ''solar'' 3, GetStats]"
  have wf: "stats agent_ready < length (heap world_ready)"
    by (simp add: agent_ready_def agent_indexed_def world_ready_def heap_indexed_def)
  have run: "client_run env_ready ?ops (agent_ready, [], world_ready) =
      (fst (client_run env_ready ?ops (agent_ready, [], world_ready)),
       fst (snd (client_run env_ready ?ops (agent_ready, [], world_ready))),
       snd (snd (client_run env_ready ?ops (agent_ready, [], world_ready))))"
    by simp
  from stats_unchanged_by_clients[OF wf run]
  have "heap (snd (snd (client_run env_ready ?ops (agent_ready, [], world_ready)))) !
          stats agent_ready = heap world_ready ! stats agent_ready"
    by blast
  then show ?thesis
    by (simp add: get_stats_def ask_question_def search_documents_def record_call_def Let_def
          agent_ready_def agent_indexed_def world_ready_def heap_indexed_def env_ready_def)
qed

section \<open>The order of the steps\<close>

lemma tail_trace_no_build:
  "path_exists e (vector_store_path a @ ''/chroma.sqlite3'') \<Longrightarrow>
     ChromaFromDocuments ds em p \<notin> set (tail_trace e a chunks)"
  by (simp add: tail_trace_def store_call_def split: option.splits)

lemma load_trace_no_build: "ChromaFromDocuments ds em p \<notin> set (load_trace e a)"
  by (auto simp: load_trace_def)

text \<open>
  Every run in which the documents load and split: how far it gets, and what it leaves
  in the statistics.
\<close>

lemma initialize_after_chunking:
  assumes run: "initialize e a w = (r, a', w')"
    and dir: "path_exists e (data_directory a)" "glob_pdf e (data_directory a) \<noteq> []"
      "\<forall>f\<in>set (glob_pdf e (data_directory a)). \<exists>docs. pdf_load e f = Inr docs"
    and split: "split_documents e (chunk_size a) (chunk_overlap a)
                  (pages e (glob_pdf e (data_directory a))) = Inr chunks"
  shows "stats a' = stats a \<and>
    (\<exists>n. calls w' = calls w @ load_trace e a @
            SplitDocuments (chunk_size a) (chunk_overlap a)
              (pages e (glob_pdf e (data_directory a))) # take n (tail_trace e a chunks) \<and>
          (r = Inr () \<longrightarrow> n = length (tail_trace e a chunks))) \<and>
    (\<exists>h. (h = heap_setitem (stats a) ''chunks_created'' (PyInt (int (length chunks)))
               (heap_setitem (stats a) ''documents_loaded''
                  (PyInt (int (length (pages e (glob_pdf e (data_directory a)))))) (heap w))) \<and>
         (heap w' = h \<or>
          heap w' = heap_setitem (stats a) ''processing_time''
                      (PyFloat (clock e (Suc (ticks w)) - clock e (ticks w))) h))"
proof -
  let ?docs = "pages e (glob_pdf e (data_directory a))"
  let ?w1 = "stats_setitem a ''documents_loaded'' (PyInt (int (length ?docs)))
               (w\<lparr>calls := calls w @ load_trace e a\<rparr>)"
  let ?split = "SplitDocuments (chunk_size a) (chunk_overlap a) ?docs"
  let ?w2 = "stats_setitem a ''chunks_created'' (PyInt (int (length chunks)))
               (?w1\<lparr>calls := calls ?w1 @ [?split]\<rparr>)"
  have L: "load_documents e a w = (Inr ?docs, a, ?w1)"
    by (rule load_documents_all_loaded[OF dir])
  have C: "create_chunks e a ?docs ?w1 = (Inr chunks, a, ?w2)"
    using split by (simp add: create_chunks_def Let_def record_call_def)
  have take1: "take (Suc 0) (tail_trace e a chunks) = [EmbeddingsInit (embedding_model a)]"
    by (simp add: tail_trace_def)
  have take3: "take 3 (tail_trace e a chunks) =
      [EmbeddingsInit (embedding_model a), PathExists (vector_store_path a @ ''/chroma.sqlite3''),
       store_call e (a\<lparr>embeddings := Some (embeddings_handle a)\<rparr>) chunks]"
    by (simp add: tail_trace_def)
  have take4: "take 4 (tail_trace e a chunks) =
      [EmbeddingsInit (embedding_model a), PathExists (vector_store_path a @ ''/chroma.sqlite3''),
       store_call e (a\<lparr>embeddings := Some (embeddings_handle a)\<rparr>) chunks,
       AsRetriever (store_handle a) 3]"
    by (simp add: tail_trace_def)
  have take5: "take 5 (tail_trace e a chunks) =
      [EmbeddingsInit (embedding_model a), PathExists (vector_store_path a @ ''/chroma.sqlite3''),
       store_call e (a\<lparr>embeddings := Some (embeddings_handle a)\<rparr>) chunks,
       AsRetriever (store_handle a) 3, Getenv ''OPENAI_API_KEY'']"
    by (simp add: tail_trace_def)
  have take6: "take 6 (tail_trace e a chunks) =
      [EmbeddingsInit (embedding_model a), PathExists (vector_store_path a @ ''/chroma.sqlite3''),
       store_call e (a\<lparr>embeddings := Some (embeddings_handle a)\<rparr>) chunks,
       AsRetriever (store_handle a) 3, Getenv ''OPENAI_API_KEY'', ChatOpenAIInit key]"
    if "getenv e ''OPENAI_API_KEY'' = Some key" for key
    using that by (simp add: tail_trace_def)
  have full: "tail_trace e a chunks =
      [EmbeddingsInit (embedding_model a), PathExists (vector_store_path a @ ''/chroma.sqlite3''),
       store_call e (a\<lparr>embeddings := Some (embeddings_handle a)\<rparr>) chunks,
       AsRetriever (store_handle a) 3, Getenv ''OPENAI_API_KEY'', ChatOpenAIInit key,
       ChainBuild (Some (retriever_handle a)) (Some (ChatOpenAI ''gpt-3.5-turbo'' 0 key))]"
    if "getenv e ''OPENAI_API_KEY'' = Some key" for key
    using that by (simp add: tail_trace_def)
  from run show ?thesis
  proof (cases rule: initialize_cases)
    case (load err)
    with L show ?thesis by simp
  next
    case (chunks err docs a1 w1)
    with L C show ?thesis by simp
  next
    case (embed err docs a1 w1 chunks' a2 w2)
    from embed(2) L have 1: "docs = ?docs" "a1 = a" "w1 = ?w1" by auto
    from embed(3) C 1 have 2: "chunks' = chunks" "a2 = a" "w2 = ?w2" by auto
    note m = setup_embeddings_Inl[OF embed(4)]
    have "calls w' = calls w @ load_trace e a @ ?split # take (Suc 0) (tail_trace e a chunks)"
      unfolding take1 using m(1,3) 2 by simp
    moreover have "heap w' = heap ?w2" using m(3) 2 by simp
    ultimately show ?thesis using m(1) 2 embed(1) by auto
  next
    case (store err docs a1 w1 chunks' a2 w2 a3 w3)
    from store(2) L have 1: "docs = ?docs" "a1 = a" "w1 = ?w1" by auto
    from store(3) C 1 have 2: "chunks' = chunks" "a2 = a" "w2 = ?w2" by auto
    note m = setup_embeddings_Inr[OF store(4)]
    have emb: "embeddings a3 \<noteq> None" using m(1) by simp
    note s = create_vector_store_Inl[OF store(5) emb]
    have "calls w' = calls w @ load_trace e a @ ?split # take 3 (tail_trace e a chunks)"
      unfolding take3 using s(1,3) m(1,3) 2 by (simp add: embeddings_handle_def)
    moreover have "heap w' = heap ?w2" using s(3) m(3) 2 by simp
    ultimately show ?thesis using s(1) m(1) 2 store(1) by auto
  next
    case (retr err docs a1 w1 chunks' a2 w2 a3 w3 a4 w4)
    from retr(2) L have 1: "docs = ?docs" "a1 = a" "w1 = ?w1" by auto
    from retr(3) C 1 have 2: "chunks' = chunks" "a2 = a" "w2 = ?w2" by auto
    note m = setup_embeddings_Inr[OF retr(4)]
    have emb: "embeddings a3 \<noteq> None" using m(1) by simp
    note s = create_vector_store_Inr[OF retr(5) emb]
    have vs: "vector_store a4 = Some (store_handle a)"
      using s(1) m(1) 2 by (simp add: store_handle_def embeddings_handle_def)
    note t = setup_retriever_Inl[OF retr(6) vs]
    have "calls w' = calls w @ load_trace e a @ ?split # take 4 (tail_trace e a chunks)"
      unfolding take4 using t(1,3) s(1,3) m(1,3) 2 by (simp add: embeddings_handle_def)
    moreover have "heap w' = heap_setitem (stats a) ''processing_time''
                      (PyFloat (clock e (Suc (ticks w)) - clock e (ticks w))) (heap ?w2)"
      using t(3) s(3) m(1,3) 2 by simp
    ultimately show ?thesis using t(1) s(1) m(1) 2 retr(1) by auto
  next
    case (llm err docs a1 w1 chunks' a2 w2 a3 w3 a4 w4 a5 w5)
    from llm(2) L have 1: "docs = ?docs" "a1 = a" "w1 = ?w1" by auto
    from llm(3) C 1 have 2: "chunks' = chunks" "a2 = a" "w2 = ?w2" by auto
    note m = setup_embeddings_Inr[OF llm(4)]
    have emb: "embeddings a3 \<noteq> None" using m(1) by simp
    note s = create_vector_store_Inr[OF llm(5) emb]
    have vs: "vector_store a4 = Some (store_handle a)"
      using s(1) m(1) 2 by (simp add: store_handle_def embeddings_handle_def)
    note t = setup_retriever_Inr[OF llm(6) vs]
    note k = setup_llm_Inl[OF llm(7)]
    have w5: "calls w5 = calls w @ load_trace e a @ ?split # take 4 (tail_trace e a chunks)"
      unfolding take4 using t(1,3) s(1,3) m(1,3) 2 by (simp add: embeddings_handle_def)
    have "\<exists>n. calls w' = calls w @ load_trace e a @ ?split # take n (tail_trace e a chunks)"
    proof -
      from k(2) consider "w' = w5\<lparr>calls := calls w5 @ [Getenv ''OPENAI_API_KEY'']\<rparr>"
        | key where "getenv e ''OPENAI_API_KEY'' = Some key"
            "w' = w5\<lparr>calls := calls w5 @ [Getenv ''OPENAI_API_KEY'', ChatOpenAIInit key]\<rparr>"
        by blast
      then show ?thesis
      proof cases
        case 1
        then have "calls w' = calls w @ load_trace e a @ ?split # take 5 (tail_trace e a chunks)"
          unfolding take5 using w5[unfolded take4] by simp
        then show ?thesis ..
      next
        case (2 key)
        then have "calls w' = calls w @ load_trace e a @ ?split # take 6 (tail_trace e a chunks)"
          unfolding take6[OF 2(1)] using w5[unfolded take4] by simp
        then show ?thesis ..
      qed
    qed
    moreover have "heap w' = heap w5" using k(2) by auto
    then have "heap w' = heap_setitem (stats a) ''processing_time''
                      (PyFloat (clock e (Suc (ticks w)) - clock e (ticks w))) (heap ?w2)"
      using t(3) s(3) m(1,3) 2 by simp
    ultimately show ?thesis using k(1) t(1) s(1) m(1) 2 llm(1) by auto
  next
    case (rest docs a1 w1 chunks' a2 w2 a3 w3 a4 w4 a5 w5 a6 w6)
    from rest(1) L have 1: "docs = ?docs" "a1 = a" "w1 = ?w1" by auto
    from rest(2) C 1 have 2: "chunks' = chunks" "a2 = a" "w2 = ?w2" by auto
    note m = setup_embeddings_Inr[OF rest(3)]
    have emb: "embeddings a3 \<noteq> None" using m(1) by simp
    note s = create_vector_store_Inr[OF rest(4) emb]
    have vs: "vector_store a4 = Some (store_handle a)"
      using s(1) m(1) 2 by (simp add: store_handle_def embeddings_handle_def)
    note t = setup_retriever_Inr[OF rest(5) vs]
    from setup_llm_Inr[OF rest(6)] obtain key where k:
      "getenv e ''OPENAI_API_KEY'' = Some key"
      "a6 = a5\<lparr>llm := Some (ChatOpenAI ''gpt-3.5-turbo'' 0 key)\<rparr>"
      "w6 = w5\<lparr>calls := calls w5 @ [Getenv ''OPENAI_API_KEY'', ChatOpenAIInit key]\<rparr>"
      by blast
    have g: "stats a' = stats a6"
      "w' = w6\<lparr>calls := calls w6 @ [ChainBuild (retriever a6) (llm a6)]\<rparr>"
      using rest(7) by (auto simp: create_rag_chain_def Let_def record_call_def split: option.splits)
    have tr: "calls w' = calls w @ load_trace e a @ ?split # tail_trace e a chunks"
      unfolding full[OF k(1)] using g(2) k(2,3) t(1,3) s(1,3) m(1,3) 2
      by (simp add: embeddings_handle_def retriever_handle_def)
    have ex: "\<exists>n. calls w' = calls w @ load_trace e a @ ?split # take n (tail_trace e a chunks) \<and>
                (r = Inr () \<longrightarrow> n = length (tail_trace e a chunks))"
      by (rule exI[of _ "length (tail_trace e a chunks)"]) (simp add: tr)
    have hp: "heap w' = heap_setitem (stats a) ''processing_time''
                (PyFloat (clock e (Suc (ticks w)) - clock e (ticks w)))
                (heap_setitem (stats a) ''chunks_created'' (PyInt (int (length chunks)))
                   (heap_setitem (stats a) ''documents_loaded''
                      (PyInt (int (length ?docs))) (heap w)))"
      using g(2) k(3) t(3) s(3) m(1,3) 2 by simp
    have st: "stats a' = stats a" using g(1) k(2) t(1) s(1) m(1) 2 by simp
    from st ex hp show ?thesis by blast
  qed
qed


subsection \<open>Loading and chunking come before the store\<close>

lemma initialize_reuse_run:
  "initialize env_reuse agent0 world1 = (Inr (), agent_ready, world_reused)"
  by (simp add: run_defs env_ready_def env_reuse_def world_reused_def)

text \<open>
  Claim C10, as amended. Take any run of \<open>initialize\<close>, successful or not, in which
  the PDF files of the data directory load and split, on an agent whose \<open>stats\<close>
  dictionary is allocated. When the run ends, \<open>documents_loaded\<close> is the number of pages now in the
  data directory and \<open>chunks_created\<close> the number of chunks they split into. The calls
  of the run are the loader's and the splitter's first, and only then a prefix of the
  remaining calls, which begin with the embedding model and the check for the persisted
  index (all of them when the run succeeds). When the persisted index exists, no call of
  the run builds an index: the chunks computed by this run go to no store.
\<close>

theorem initialize_reloads_and_discards:
  assumes run: "initialize e a w = (r, a', w')"
    and heap: "stats a < length (heap w)"
    and dir: "path_exists e (data_directory a)" "glob_pdf e (data_directory a) \<noteq> []"
      "\<forall>f\<in>set (glob_pdf e (data_directory a)). \<exists>docs. pdf_load e f = Inr docs"
    and split: "split_documents e (chunk_size a) (chunk_overlap a)
                  (pages e (glob_pdf e (data_directory a))) = Inr chunks"
  shows "stats_getitem a' ''documents_loaded'' w' =
           Some (PyInt (int (length (pages e (glob_pdf e (data_directory a)))))) \<and>
         stats_getitem a' ''chunks_created'' w' = Some (PyInt (int (length chunks))) \<and>
         (\<exists>n. new_calls w w' =
                load_trace e a @
                SplitDocuments (chunk_size a) (chunk_overlap a)
                  (pages e (glob_pdf e (data_directory a))) #
                take n (tail_trace e a chunks) \<and>
              (r = Inr () \<longrightarrow> n = length (tail_trace e a chunks))) \<and>
         (path_exists e (vector_store_path a @ ''/chroma.sqlite3'') \<longrightarrow>
            (\<forall>ds em p. ChromaFromDocuments ds em p \<notin> set (new_calls w w')))"
proof -
  let ?docs = "pages e (glob_pdf e (data_directory a))"
  let ?split = "SplitDocuments (chunk_size a) (chunk_overlap a) ?docs"
  let ?h = "heap_setitem (stats a) ''chunks_created'' (PyInt (int (length chunks)))
              (heap_setitem (stats a) ''documents_loaded'' (PyInt (int (length ?docs))) (heap w))"
  from initialize_after_chunking[OF run dir split] obtain n where
    st: "stats a' = stats a"
    and tr: "calls w' = calls w @ load_trace e a @ ?split # take n (tail_trace e a chunks)"
    and full: "r = Inr () \<longrightarrow> n = length (tail_trace e a chunks)"
    and hp: "heap w' = ?h \<or>
             heap w' = heap_setitem (stats a) ''processing_time''
                         (PyFloat (clock e (Suc (ticks w)) - clock e (ticks w))) ?h"
    by blast
  from hp heap st have loaded: "stats_getitem a' ''documents_loaded'' w' =
      Some (PyInt (int (length ?docs)))"
    by (auto simp: stats_getitem_def heap_setitem_lookup)
  from hp heap st have chunked: "stats_getitem a' ''chunks_created'' w' =
      Some (PyInt (int (length chunks)))"
    by (auto simp: stats_getitem_def heap_setitem_lookup)
  from tr have nc: "new_calls w w' = load_trace e a @ ?split # take n (tail_trace e a chunks)"
    by (simp add: new_calls_def)
  have reuse: "ChromaFromDocuments ds em p \<notin> set (new_calls w w')"
    if "path_exists e (vector_store_path a @ ''/chroma.sqlite3'')" for ds em p
    using tail_trace_no_build[OF that, of ds em p chunks] load_trace_no_build[of ds em p e a]
    by (auto simp: nc dest: in_set_takeD)
  from loaded chunked nc full reuse show ?thesis by blast
qed

text \<open>The complete run that opens the persisted index of the concrete world.\<close>

theorem initialize_reloads_and_discards_witness:
  "stats_getitem agent_ready ''documents_loaded'' world_reused = Some (PyInt 2) \<and>
   stats_getitem agent_ready ''chunks_created'' world_reused = Some (PyInt 2) \<and>
   ChromaFromDocuments [page_a, page_b] (Some (embeddings_handle agent0)) ''./chroma_db''
     \<notin> set (new_calls world1 world_reused)"
proof -
  have heap: "stats agent0 < length (heap world1)" by simp
  have dir: "path_exists env_reuse (data_directory agent0)"
    "glob_pdf env_reuse (data_directory agent0) \<noteq> []"
    "\<forall>f\<in>set (glob_pdf env_reuse (data_directory agent0)). \<exists>docs. pdf_load env_reuse f = Inr docs"
    by (simp_all add: env_reuse_def env_ready_def)
  have split: "split_documents env_reuse (chunk_size agent0) (chunk_overlap agent0)
      (pages env_reuse (glob_pdf env_reuse (data_directory agent0))) = Inr [page_a, page_b]"
    by (simp add: env_reuse_def env_ready_def pages_def)
  have db: "path_exists env_reuse (vector_store_path agent0 @ ''/chroma.sqlite3'')"
    by (simp add: env_reuse_def env_ready_def)
  from initialize_reloads_and_discards[OF initialize_reuse_run heap dir split] db
  have "stats_getitem agent_ready ''documents_loaded'' world_reused =
          Some (PyInt (int (length (pages env_reuse (glob_pdf env_reuse (data_directory agent0))))))"
    "stats_getitem agent_ready ''chunks_created'' world_reused =
          Some (PyInt (int (length [page_a, page_b])))"
    "ChromaFromDocuments [page_a, page_b] (Some (embeddings_handle agent0)) ''./chroma_db''
       \<notin> set (new_calls world1 world_reused)"
    by blast+
  then show ?thesis by (simp add: env_reuse_def env_ready_def pages_def)
qed


lemma initialize_emptied_run:
  "initialize env_nofiles agent_ready world_ready =
     (Inl (FileNotFoundError ''No PDF files found in data''), agent_ready,
      world_ready\<lparr>calls := calls world_ready @ [PathExists ''data'', GlobPdf ''data'']\<rparr>)"
  by (simp add: initialize_def load_documents_def record_call_def Let_def env_nofiles_def
        env_ready_def agent_ready_def agent_indexed_def)

text \<open>
  Claim C10 as stated fails for a run in which loading fails: the statistics are written
  only after a successful load. After a complete run on the two-page PDF, the directory
  is emptied and \<open>initialize\<close> is called again on the same agent. It raises
  \<open>FileNotFoundError\<close>, and the statistics still say two documents and two chunks while
  the directory holds no PDF.
\<close>

theorem initialize_stale_statistics_counterexample:
  "initialize env_ready agent0 world1 = (Inr (), agent_ready, world_ready) \<and>
   glob_pdf env_nofiles (data_directory agent_ready) = [] \<and>
   fst (initialize env_nofiles agent_ready world_ready) =
     Inl (FileNotFoundError ''No PDF files found in data'') \<and>
   stats_getitem (fst (snd (initialize env_nofiles agent_ready world_ready)))
     ''documents_loaded'' (snd (snd (initialize env_nofiles agent_ready world_ready))) =
     Some (PyInt 2) \<and>
   stats_getitem (fst (snd (initialize env_nofiles agent_ready world_ready)))
     ''chunks_created'' (snd (snd (initialize env_nofiles agent_ready world_ready))) =
     Some (PyInt 2)"
  unfolding initialize_ready_run initialize_emptied_run
  by (simp add: stats_getitem_def env_nofiles_def env_ready_def agent_ready_def
        agent_indexed_def world_ready_def heap_indexed_def)

subsection \<open>The credential is checked after the store\<close>

text \<open>
  Claim C2, as amended. When the credential is absent or empty, the PDF files of the data
  directory load and split, and the embedding model, the store and the retriever are
  available, \<open>initialize\<close> fails with \<open>ValueError\<close> (\<open>OPENAI_API_KEY not found in
  environment variables\<close>), and it fails at its sixth step: the environment is read only
  after the store call. That call opens the persisted index when there is one, and
  otherwise embeds and stores all chunks before the failure. No chat model is built and
  no chain assigned; the vector store stays assigned.
\<close>

theorem missing_credential_fails_after_store:
  assumes run: "initialize e a w = (r, a', w')"
    and key: "getenv e ''OPENAI_API_KEY'' = None \<or> getenv e ''OPENAI_API_KEY'' = Some []"
    and dir: "path_exists e (data_directory a)" "glob_pdf e (data_directory a) \<noteq> []"
      "\<forall>f\<in>set (glob_pdf e (data_directory a)). \<exists>docs. pdf_load e f = Inr docs"
    and split: "split_documents e (chunk_size a) (chunk_overlap a)
                  (pages e (glob_pdf e (data_directory a))) = Inr chunks"
    and emb: "embeddings_init e (embedding_model a) = None"
    and store: "store_answer e (a\<lparr>embeddings := Some (embeddings_handle a)\<rparr>) chunks = None"
    and retr: "as_retriever e (store_handle a) 3 = None"
  shows "r = Inl (ValueError ''OPENAI_API_KEY not found in environment variables'') \<and>
         new_calls w w' =
           load_trace e a @
           [SplitDocuments (chunk_size a) (chunk_overlap a)
              (pages e (glob_pdf e (data_directory a))),
            EmbeddingsInit (embedding_model a),
            PathExists (vector_store_path a @ ''/chroma.sqlite3''),
            if path_exists e (vector_store_path a @ ''/chroma.sqlite3'')
            then ChromaOpen (vector_store_path a) (Some (embeddings_handle a))
            else ChromaFromDocuments chunks (Some (embeddings_handle a)) (vector_store_path a),
            AsRetriever (store_handle a) 3,
            Getenv ''OPENAI_API_KEY''] \<and>
         vector_store a' = Some (store_handle a) \<and> llm a' = llm a \<and>
         rag_chain a' = rag_chain a"
proof -
  let ?docs = "pages e (glob_pdf e (data_directory a))"
  let ?w1 = "stats_setitem a ''documents_loaded'' (PyInt (int (length ?docs)))
               (w\<lparr>calls := calls w @ load_trace e a\<rparr>)"
  let ?split = "SplitDocuments (chunk_size a) (chunk_overlap a) ?docs"
  let ?w2 = "stats_setitem a ''chunks_created'' (PyInt (int (length chunks)))
               (?w1\<lparr>calls := calls ?w1 @ [?split]\<rparr>)"
  let ?a3 = "a\<lparr>embeddings := Some (embeddings_handle a)\<rparr>"
  let ?w3 = "?w2\<lparr>calls := calls ?w2 @ [EmbeddingsInit (embedding_model a)]\<rparr>"
  have L: "load_documents e a w = (Inr ?docs, a, ?w1)"
    by (rule load_documents_all_loaded[OF dir])
  have C: "create_chunks e a ?docs ?w1 = (Inr chunks, a, ?w2)"
    using split by (simp add: create_chunks_def Let_def record_call_def)
  have M: "setup_embeddings e a ?w2 = (Inr (), ?a3, ?w3)"
    using emb by (simp add: setup_embeddings_def Let_def record_call_def embeddings_handle_def)
  obtain r4 a4 w4 where S: "create_vector_store e ?a3 chunks ?w3 = (r4, a4, w4)"
    by (cases "create_vector_store e ?a3 chunks ?w3") auto
  have emb3: "embeddings ?a3 \<noteq> None" by simp
  have r4: "r4 = Inr ()"
  proof (cases r4)
    case (Inl err)
    with create_vector_store_Inl(2)[OF _ emb3, of e chunks ?w3 err a4 w4] S store
    show ?thesis by simp
  qed simp
  note s = create_vector_store_Inr[OF S[unfolded r4] emb3]
  have vs: "vector_store a4 = Some (store_handle a)"
    using s(1) by (simp add: store_handle_def)
  have T: "setup_retriever e a4 3 w4 =
      (Inr (), a4\<lparr>retriever := Some (VectorStoreRetriever (store_handle a) ''similarity'' 3)\<rparr>,
       w4\<lparr>calls := calls w4 @ [AsRetriever (store_handle a) 3]\<rparr>)"
    using vs retr by (simp add: setup_retriever_def Let_def record_call_def)
  let ?a5 = "a4\<lparr>retriever := Some (VectorStoreRetriever (store_handle a) ''similarity'' 3)\<rparr>"
  let ?w5 = "w4\<lparr>calls := calls w4 @ [AsRetriever (store_handle a) 3]\<rparr>"
  have K: "setup_llm e ?a5 ?w5 =
      (Inl (ValueError ''OPENAI_API_KEY not found in environment variables''), ?a5,
       ?w5\<lparr>calls := calls ?w5 @ [Getenv ''OPENAI_API_KEY'']\<rparr>)"
    using key by (auto simp: setup_llm_def Let_def record_call_def)
  have "initialize e a w =
      (Inl (ValueError ''OPENAI_API_KEY not found in environment variables''), ?a5,
       ?w5\<lparr>calls := calls ?w5 @ [Getenv ''OPENAI_API_KEY'']\<rparr>)"
    by (simp only: initialize_def L C M S r4 T K prod.case sum.case)
  with run have res: "r = Inl (ValueError ''OPENAI_API_KEY not found in environment variables'')"
    "a' = ?a5" "w' = ?w5\<lparr>calls := calls ?w5 @ [Getenv ''OPENAI_API_KEY'']\<rparr>"
    by auto
  have "new_calls w w' =
           load_trace e a @
           [?split, EmbeddingsInit (embedding_model a),
            PathExists (vector_store_path a @ ''/chroma.sqlite3''),
            store_call e ?a3 chunks, AsRetriever (store_handle a) 3, Getenv ''OPENAI_API_KEY'']"
    using res(3) s(3) by (simp add: new_calls_def)
  with res(1,2) s(1) show ?thesis by (simp add: store_call_def store_handle_def)
qed

text \<open>
  The two cases in the concrete world: without persisted index the chunks are embedded
  before the credential is read, with one the index is opened.
\<close>

theorem missing_credential_fails_after_store_witness:
  "fst (initialize env_nokey agent0 world1) =
     Inl (ValueError ''OPENAI_API_KEY not found in environment variables'') \<and>
   new_calls world1 (snd (snd (initialize env_nokey agent0 world1))) = calls_built \<and>
   fst (initialize env_emptykey_reuse agent0 world1) =
     Inl (ValueError ''OPENAI_API_KEY not found in environment variables'') \<and>
   new_calls world1 (snd (snd (initialize env_emptykey_reuse agent0 world1))) = calls_reused"
proof -
  have build: "fst (initialize env_nokey agent0 world1) =
     Inl (ValueError ''OPENAI_API_KEY not found in environment variables'') \<and>
   new_calls world1 (snd (snd (initialize env_nokey agent0 world1))) = calls_built"
    using missing_credential_fails_after_store[where e = env_nokey and a = agent0 and w = world1
        and r = "fst (initialize env_nokey agent0 world1)"
        and a' = "fst (snd (initialize env_nokey agent0 world1))"
        and w' = "snd (snd (initialize env_nokey agent0 world1))"
        and chunks = "[page_a, page_b]"]
    by (simp add: env_nokey_def env_ready_def pages_def store_answer_def store_handle_def
          embeddings_handle_def load_trace_def calls_built_def)
  have reuse: "fst (initialize env_emptykey_reuse agent0 world1) =
     Inl (ValueError ''OPENAI_API_KEY not found in environment variables'') \<and>
   new_calls world1 (snd (snd (initialize env_emptykey_reuse agent0 world1))) = calls_reused"
    using missing_credential_fails_after_store[where e = env_emptykey_reuse and a = agent0
        and w = world1
        and r = "fst (initialize env_emptykey_reuse agent0 world1)"
        and a' = "fst (snd (initialize env_emptykey_reuse agent0 world1))"
        and w' = "snd (snd (initialize env_emptykey_reuse agent0 world1))"
        and chunks = "[page_a, page_b]"]
    by (simp add: env_emptykey_reuse_def env_ready_def pages_def store_answer_def store_handle_def
          embeddings_handle_def load_trace_def calls_reused_def)
  from build reuse show ?thesis by simp
qed

text \<open>
  Claim C2 as stated fails: one loadable PDF, no credential, no persisted index.
  \<open>initialize\<close> fails with the \<open>ValueError\<close>, and the trace it leaves contains the call
  that embeds the two chunks.
\<close>

theorem missing_credential_embeds_first_counterexample:
  "getenv env_nokey ''OPENAI_API_KEY'' = None \<and>
   pdf_load env_nokey ''data/report.pdf'' = Inr [page_a, page_b] \<and>
   fst (initialize env_nokey agent0 world1) =
     Inl (ValueError ''OPENAI_API_KEY not found in environment variables'') \<and>
   ChromaFromDocuments [page_a, page_b] (Some (embeddings_handle agent0)) ''./chroma_db''
     \<in> set (calls (snd (snd (initialize env_nokey agent0 world1))))"
  unfolding initialize_nokey_run
  by (simp add: env_nokey_def env_ready_def world_nokey_def calls_built_def)

end
